theory Spec2Isabelle
  imports Complex_Main "HOL-Library.Char_ord" "HOL-Library.List_Lexorder"
begin

section \<open>Errors\<close>

text \<open>
  The exceptions that the script and the libraries it calls can raise. None of them is
  caught anywhere in \<^verbatim>\<open>shopping.py\<close>, so each one ends the run.
\<close>

datatype error = FileNotFoundError | ParserError | ValueError | IndexError | TypeError

section \<open>Floating-point values\<close>

text \<open>
  A binary64 value is either a rational (every finite double is one), a NaN or an
  infinity. \<open>fl\<close> rounds a rational to the nearest double, ties to even, for the normal
  exponent range; quotients of counts and their hundredfold never leave that range.
\<close>

datatype npfloat = Val rat | NaN | PosInf | NegInf

fun ilog2 :: "nat \<Rightarrow> nat" where
  "ilog2 n = (if n < 2 then 0 else Suc (ilog2 (n div 2)))"

declare ilog2.simps [simp del]

definition pow2 :: "int \<Rightarrow> rat" where
  "pow2 e = (if 0 \<le> e then 2 ^ nat e else 1 / 2 ^ nat (- e))"

definition floor_log2 :: "rat \<Rightarrow> int" where
  "floor_log2 q =
     (let (a, b) = quotient_of q;
          e0 = int (ilog2 (nat a)) - int (ilog2 (nat b))
      in if pow2 e0 \<le> q then e0 else e0 - 1)"

definition round_half_even :: "rat \<Rightarrow> int" where
  "round_half_even x =
     (let f = \<lfloor>x\<rfloor>; d = x - of_int f
      in if d < 1 / 2 then f
         else if 1 / 2 < d then f + 1
         else if even f then f else f + 1)"

definition fl :: "rat \<Rightarrow> rat" where
  "fl q =
     (if q = 0 then 0
      else let e = floor_log2 \<bar>q\<bar>;
               m = round_half_even (\<bar>q\<bar> * pow2 (52 - e))
           in sgn q * of_int m * pow2 (e - 52))"

text \<open>
  True division of two numpy \<open>int64\<close> scalars: both operands become doubles (exactly,
  for counts below \<open>2 ^ 53\<close>) and are divided. Division by zero is not an exception in
  numpy: it yields NaN for \<open>0 / 0\<close> and an infinity otherwise, with a warning only.
\<close>

definition true_divide :: "int \<Rightarrow> int \<Rightarrow> npfloat" where
  "true_divide a b =
     (if b = 0 then (if a = 0 then NaN else if 0 < a then PosInf else NegInf)
      else Val (fl (of_int a / of_int b)))"

section \<open>The evaluator\<close>

text \<open>
  \<^verbatim>\<open>sklearn.metrics.confusion_matrix(y_true, y_pred)\<close> with no \<^verbatim>\<open>labels\<close> argument: the
  classes are the distinct values occurring in either list, in ascending order; entry
  \<open>(i, j)\<close> counts the samples whose true label is the \<open>i\<close>-th class and whose predicted
  label is the \<open>j\<close>-th class. Lists of different lengths are rejected, and so are
  empty ones.
\<close>

definition unique_labels :: "int list \<Rightarrow> int list \<Rightarrow> int list" where
  "unique_labels y_true y_pred = sort (remdups (y_true @ y_pred))"

definition confusion_matrix :: "int list \<Rightarrow> int list \<Rightarrow> error + int list list" where
  "confusion_matrix y_true y_pred =
     (if length y_true \<noteq> length y_pred then Inl ValueError
      else if y_true = [] then Inl ValueError
      else let labels = unique_labels y_true y_pred
           in Inr (map (\<lambda>t. map (\<lambda>p. int (count_list (zip y_true y_pred) (t, p))) labels)
                    labels))"

text \<open>Reading \<^verbatim>\<open>cm[i, j]\<close>: an index outside the matrix raises.\<close>

definition item :: "int list list \<Rightarrow> nat \<Rightarrow> nat \<Rightarrow> error + int" where
  "item cm i j =
     (if i < length cm \<and> j < length (cm ! i) then Inr (cm ! i ! j) else Inl IndexError)"

definition evaluate :: "int list \<Rightarrow> int list \<Rightarrow> error + npfloat \<times> npfloat" where
  "evaluate labels predictions =
     (case confusion_matrix labels predictions of
        Inl e \<Rightarrow> Inl e
      | Inr cm \<Rightarrow>
          (case item cm 0 0 of Inl e \<Rightarrow> Inl e | Inr TN \<Rightarrow>
          (case item cm 1 0 of Inl e \<Rightarrow> Inl e | Inr FN \<Rightarrow>
          (case item cm 0 1 of Inl e \<Rightarrow> Inl e | Inr FP \<Rightarrow>
          (case item cm 1 1 of Inl e \<Rightarrow> Inl e | Inr TP \<Rightarrow>
             (let sensitivity = true_divide TP (TP + FN);
                  specificty = true_divide TN (TN + FP)
              in Inr (sensitivity, specificty)))))))"

text \<open>
  The same two functions for labels of any kind. What scikit-learn takes as the classes
  of two label vectors (\<^verbatim>\<open>unique_labels\<close>: their distinct values in ascending order, or a
  refusal of labels that it cannot order or does not support) is the argument \<open>classes\<close>;
  for integer labels it is \<open>unique_labels\<close> above.
\<close>

definition confusion_matrix_labels ::
  "('a list \<Rightarrow> 'a list \<Rightarrow> error + 'a list) \<Rightarrow> 'a list \<Rightarrow> 'a list \<Rightarrow> error + int list list" where
  "confusion_matrix_labels classes y_true y_pred =
     (if length y_true \<noteq> length y_pred then Inl ValueError
      else if y_true = [] then Inl ValueError
      else case classes y_true y_pred of
        Inl e \<Rightarrow> Inl e
      | Inr labels \<Rightarrow>
          Inr (map (\<lambda>t. map (\<lambda>p. int (count_list (zip y_true y_pred) (t, p))) labels)
                labels))"

definition evaluate_labels ::
  "('a list \<Rightarrow> 'a list \<Rightarrow> error + 'a list) \<Rightarrow> 'a list \<Rightarrow> 'a list \<Rightarrow> error + npfloat \<times> npfloat" where
  "evaluate_labels classes labels predictions =
     (case confusion_matrix_labels classes labels predictions of
        Inl e \<Rightarrow> Inl e
      | Inr cm \<Rightarrow>
          (case item cm 0 0 of Inl e \<Rightarrow> Inl e | Inr TN \<Rightarrow>
          (case item cm 1 0 of Inl e \<Rightarrow> Inl e | Inr FN \<Rightarrow>
          (case item cm 0 1 of Inl e \<Rightarrow> Inl e | Inr FP \<Rightarrow>
          (case item cm 1 1 of Inl e \<Rightarrow> Inl e | Inr TP \<Rightarrow>
             (let sensitivity = true_divide TP (TP + FN);
                  specificty = true_divide TN (TN + FP)
              in Inr (sensitivity, specificty)))))))"

section \<open>Tables\<close>

text \<open>
  A pandas \<^verbatim>\<open>DataFrame\<close>: the column names of the header and the rows below it, in file
  order. A cell is an integer, a double, a string or a boolean; a missing value is the
  double NaN, as in pandas. A frame is rectangular: \<open>wf_df\<close>.
\<close>

datatype cell = IntV int | FloatV npfloat | StrV string | BoolV bool

record dataframe =
  columns :: "string list"
  rows :: "cell list list"

definition wf_df :: "dataframe \<Rightarrow> bool" where
  "wf_df df \<longleftrightarrow> list_all (\<lambda>r. length r = length (columns df)) (rows df)"

text \<open>
  \<^verbatim>\<open>df.replace(mapping)\<close> with a nested dictionary: in each column that the dictionary
  names, a cell equal to a key becomes that key's value; every other cell, and every
  other column, stays as it is. Keys are matched as typed values here. Python's \<^verbatim>\<open>==\<close>
  also equates \<^verbatim>\<open>True\<close> with 1 and \<^verbatim>\<open>False\<close> with 0, but the two boolean tables send
  \<^verbatim>\<open>True\<close> to 1 and \<^verbatim>\<open>False\<close> to 0, so a numeric cell keeps its value either way.
\<close>

definition replace_value :: "(cell \<times> cell) list \<Rightarrow> cell \<Rightarrow> cell" where
  "replace_value m v = (case map_of m v of Some w \<Rightarrow> w | None \<Rightarrow> v)"

definition replace_in_column :: "(string \<times> (cell \<times> cell) list) list \<Rightarrow> string \<Rightarrow> cell \<Rightarrow> cell" where
  "replace_in_column to_replace name v =
     (case map_of to_replace name of Some m \<Rightarrow> replace_value m v | None \<Rightarrow> v)"

definition replace :: "dataframe \<Rightarrow> (string \<times> (cell \<times> cell) list) list \<Rightarrow> dataframe" where
  "replace df to_replace =
     df\<lparr>rows := map (\<lambda>r. map2 (replace_in_column to_replace) (columns df) r) (rows df)\<rparr>"

definition mapping :: "(string \<times> (cell \<times> cell) list) list" where
  "mapping =
     [(''Month'',
        [(StrV ''Jan'', IntV 0), (StrV ''Feb'', IntV 1), (StrV ''Mar'', IntV 2),
         (StrV ''Apr'', IntV 3), (StrV ''May'', IntV 4), (StrV ''June'', IntV 5),
         (StrV ''Jul'', IntV 6), (StrV ''Aug'', IntV 7), (StrV ''Sep'', IntV 8),
         (StrV ''Oct'', IntV 9), (StrV ''Nov'', IntV 10), (StrV ''Dec'', IntV 11)]),
      (''VisitorType'',
        [(StrV ''Returning_Visitor'', IntV 1),
         (StrV ''New_Visitor'', IntV 0),
         (StrV ''Other'', IntV 0)]),
      (''Weekend'',
        [(BoolV True, IntV 1),
         (BoolV False, IntV 0)]),
      (''Revenue'',
        [(BoolV True, IntV 1),
         (BoolV False, IntV 0)])]"

definition transform_df :: "dataframe \<Rightarrow> dataframe" where
  "transform_df df = replace df mapping"

text \<open>\<^verbatim>\<open>df.iloc[:, :-1]\<close>: every column but the last.\<close>

definition iloc_all_but_last :: "dataframe \<Rightarrow> dataframe" where
  "iloc_all_but_last df = \<lparr>columns = butlast (columns df), rows = map butlast (rows df)\<rparr>"

text \<open>\<^verbatim>\<open>df.iloc[:, -1]\<close>: the last column as a series; a frame with no column raises.\<close>

definition iloc_last :: "dataframe \<Rightarrow> error + cell list" where
  "iloc_last df = (if columns df = [] then Inl IndexError else Inr (map last (rows df)))"

section \<open>From a frame to Python lists\<close>

text \<open>
  \<^verbatim>\<open>json.loads(df.to_json(orient='split'))['data']\<close>. Integers, strings and booleans come
  back as they were. A finite double is written with at most ten decimal places and read
  back as a double: \<open>rt\<close> is that round trip on the value. NaN and the infinities are
  written as \<^verbatim>\<open>null\<close> and come back as \<^verbatim>\<open>None\<close>.
\<close>

datatype json = JInt int | JFloat rat | JStr string | JBool bool | JNull

fun json_value :: "(rat \<Rightarrow> rat) \<Rightarrow> cell \<Rightarrow> json" where
  "json_value rt (IntV i) = JInt i"
| "json_value rt (FloatV (Val x)) = JFloat (rt x)"
| "json_value rt (FloatV NaN) = JNull"
| "json_value rt (FloatV PosInf) = JNull"
| "json_value rt (FloatV NegInf) = JNull"
| "json_value rt (StrV s) = JStr s"
| "json_value rt (BoolV b) = JBool b"

text \<open>
  The source function is applied to a frame (a list of rows) and to a series (a list).
  For a frame without columns \<^verbatim>\<open>to_json\<close> writes no data rows at all.
\<close>

definition dataframe_to_list_of_lists :: "(rat \<Rightarrow> rat) \<Rightarrow> dataframe \<Rightarrow> json list list" where
  "dataframe_to_list_of_lists rt df =
     (if columns df = [] then [] else map (map (json_value rt)) (rows df))"

definition series_to_list :: "(rat \<Rightarrow> rat) \<Rightarrow> cell list \<Rightarrow> json list" where
  "series_to_list rt y = map (json_value rt) y"

section \<open>What the run depends on\<close>

text \<open>
  \<^item> \<open>read_csv\<close>: the file system and the CSV parser, from a path to a frame or an error;
  \<^item> \<open>double_roundtrip\<close>: the ten-decimal-place round trip of a double through JSON text;
  \<^item> \<open>permutation\<close>: the unseeded random permutation of \<open>0..<n\<close> drawn by the splitter;
  \<^item> \<open>KNeighborsClassifier\<close>: fitting a k-nearest-neighbour classifier, which can raise,
    and gives a prediction function, which can raise too;
  \<^item> \<open>label_classes\<close>: the classes that scikit-learn takes from the true and the predicted
    labels when it builds the confusion matrix, or its refusal of them.
\<close>

type_synonym classifier = "json list list \<Rightarrow> error + json list"

record world =
  read_csv :: "string \<Rightarrow> error + dataframe"
  double_roundtrip :: "rat \<Rightarrow> rat"
  permutation :: "nat \<Rightarrow> nat list"
  KNeighborsClassifier :: "nat \<Rightarrow> json list list \<Rightarrow> json list \<Rightarrow> error + classifier"
  label_classes :: "json list \<Rightarrow> json list \<Rightarrow> error + json list"

section \<open>The loader\<close>

definition load_data :: "world \<Rightarrow> string \<Rightarrow> error + json list list \<times> json list" where
  "load_data w filename =
     (case read_csv w filename of
        Inl e \<Rightarrow> Inl e
      | Inr df \<Rightarrow>
          (let df_transformed = transform_df df;
               X = iloc_all_but_last df_transformed
           in case iloc_last df_transformed of
                Inl e \<Rightarrow> Inl e
              | Inr y \<Rightarrow>
                  (let evidence = dataframe_to_list_of_lists (double_roundtrip w) X;
                       labels = series_to_list (double_roundtrip w) y
                   in Inr (evidence, labels))))"

section \<open>The splitter\<close>

text \<open>
  \<^verbatim>\<open>train_test_split(evidence, labels, test_size=TEST_SIZE)\<close>: the two lists must have the
  same length \<open>n\<close>; the test set gets \<open>\<lceil>test_size * n\<rceil>\<close> rows and the training set the
  rest, and an empty training set is refused. The first \<open>n_test\<close> entries of the drawn
  permutation index the test rows, the following \<open>n_train\<close> the training rows. The
  product \<open>0.4 * n\<close> is computed in doubles; its ceiling is that of \<open>2 * n / 5\<close>.
\<close>

definition TEST_SIZE :: rat where
  "TEST_SIZE = 4 / 10"

definition train_test_split ::
  "(nat \<Rightarrow> nat list) \<Rightarrow> 'a list \<Rightarrow> 'b list \<Rightarrow> rat \<Rightarrow> error + 'a list \<times> 'a list \<times> 'b list \<times> 'b list" where
  "train_test_split perm X y test_size =
     (if length X \<noteq> length y then Inl ValueError
      else if test_size \<le> 0 \<or> 1 \<le> test_size then Inl ValueError
      else let n_samples = length X;
               n_test = nat \<lceil>test_size * of_nat n_samples\<rceil>;
               n_train = n_samples - n_test
           in if n_train = 0 then Inl ValueError
              else let p = perm n_samples;
                       ind_test = take n_test p;
                       ind_train = take n_train (drop n_test p)
                   in Inr (map ((!) X) ind_train, map ((!) X) ind_test,
                           map ((!) y) ind_train, map ((!) y) ind_test))"

section \<open>The trainer\<close>

definition train_model :: "world \<Rightarrow> json list list \<Rightarrow> json list \<Rightarrow> error + classifier" where
  "train_model w evidence labels = KNeighborsClassifier w 1 evidence labels"

section \<open>The report\<close>

definition digit :: "nat \<Rightarrow> char" where
  "digit d = ''0123456789'' ! d"

fun str_nat :: "nat \<Rightarrow> string" where
  "str_nat n = (if n < 10 then [digit n] else str_nat (n div 10) @ [digit (n mod 10)])"

declare str_nat.simps [simp del]

text \<open>\<^verbatim>\<open>100 * sensitivity\<close> on a double.\<close>

fun times100 :: "npfloat \<Rightarrow> npfloat" where
  "times100 (Val x) = Val (fl (100 * x))"
| "times100 NaN = NaN"
| "times100 PosInf = PosInf"
| "times100 NegInf = NegInf"

text \<open>
  The format \<^verbatim>\<open>:.2f\<close>: the exact value of the double rounded to hundredths, ties to even;
  NaN and the infinities are spelled out.
\<close>

fun format_2f :: "npfloat \<Rightarrow> string" where
  "format_2f (Val x) =
     (let r = round_half_even (\<bar>x\<bar> * 100)
      in (if x < 0 then ''-'' else []) @ str_nat (nat (r div 100)) @ ''.'' @
         [digit (nat (r mod 100 div 10)), digit (nat (r mod 10))])"
| "format_2f NaN = ''nan''"
| "format_2f PosInf = ''inf''"
| "format_2f NegInf = ''-inf''"

text \<open>
  \<^verbatim>\<open>(y_test == predictions).sum()\<close> and \<^verbatim>\<open>(y_test != predictions).sum()\<close> on two
  sequences of the same length (\<open>evaluate\<close> has checked it by then). The test labels and
  the predictions are labels of one column, hence of one kind, and \<^verbatim>\<open>==\<close> is equality
  of the values.
\<close>

definition count_equal :: "'a list \<Rightarrow> 'a list \<Rightarrow> nat" where
  "count_equal y_test predictions = length (filter (\<lambda>(a, b). a = b) (zip y_test predictions))"

definition count_differ :: "'a list \<Rightarrow> 'a list \<Rightarrow> nat" where
  "count_differ y_test predictions = length (filter (\<lambda>(a, b). a \<noteq> b) (zip y_test predictions))"

section \<open>The program\<close>

text \<open>
  A run ends in one of three ways: it prints its lines and returns (status 0);
  \<^verbatim>\<open>sys.exit\<close> with a string writes the string to standard error (status 1); an
  exception that nobody catches ends it with a traceback on standard error (status 1).
\<close>

datatype outcome = Finished "string list" | SysExit string | Uncaught error

fun stdout :: "outcome \<Rightarrow> string list" where
  "stdout (Finished ls) = ls"
| "stdout (SysExit msg) = []"
| "stdout (Uncaught e) = []"

fun stderr :: "outcome \<Rightarrow> string list" where
  "stderr (Finished ls) = []"
| "stderr (SysExit msg) = [msg]"
| "stderr (Uncaught e) = [''Traceback (most recent call last):'']"

fun exit_status :: "outcome \<Rightarrow> nat" where
  "exit_status (Finished ls) = 0"
| "exit_status (SysExit msg) = 1"
| "exit_status (Uncaught e) = 1"

definition report :: "json list \<Rightarrow> json list \<Rightarrow> npfloat \<Rightarrow> npfloat \<Rightarrow> string list" where
  "report y_test predictions sensitivity specificity =
     [''Correct: '' @ str_nat (count_equal y_test predictions),
      ''Incorrect: '' @ str_nat (count_differ y_test predictions),
      ''True Positive Rate: '' @ format_2f (times100 sensitivity) @ ''%'',
      ''True Negative Rate: '' @ format_2f (times100 specificity) @ ''%'']"

definition main :: "world \<Rightarrow> string list \<Rightarrow> outcome" where
  "main w argv =
     (if length argv \<noteq> 2 then SysExit ''Usage: python shopping.py data''
      else case load_data w (argv ! 1) of
        Inl e \<Rightarrow> Uncaught e
      | Inr (evidence, labels) \<Rightarrow>
      (case train_test_split (permutation w) evidence labels TEST_SIZE of
        Inl e \<Rightarrow> Uncaught e
      | Inr (X_train, X_test, y_train, y_test) \<Rightarrow>
      (case train_model w X_train y_train of
        Inl e \<Rightarrow> Uncaught e
      | Inr model \<Rightarrow>
      (case model X_test of
        Inl e \<Rightarrow> Uncaught e
      | Inr predictions \<Rightarrow>
      (case evaluate_labels (label_classes w) y_test predictions of
        Inl e \<Rightarrow> Uncaught e
      | Inr (sensitivity, specificity) \<Rightarrow>
          Finished (report y_test predictions sensitivity specificity))))))"

section \<open>Vocabulary of the properties\<close>

text \<open>
  The confusion counts in words: the number of samples whose true label is \<open>t\<close> and
  whose predicted label is \<open>p\<close>.
\<close>

definition pairs :: "int list \<Rightarrow> int list \<Rightarrow> int \<Rightarrow> int \<Rightarrow> int" where
  "pairs y_true y_pred t p =
     int (length (filter (\<lambda>(a, b). a = t \<and> b = p) (zip y_true y_pred)))"

text \<open>
  The header of a valid input file: the seventeen feature columns in the order of the
  docstring of \<^verbatim>\<open>load_data\<close>, then the label column.
\<close>

definition feature_names :: "string list" where
  "feature_names =
     [''Administrative'', ''Administrative_Duration'', ''Informational'',
      ''Informational_Duration'', ''ProductRelated'', ''ProductRelated_Duration'',
      ''BounceRates'', ''ExitRates'', ''PageValues'', ''SpecialDay'', ''Month'',
      ''OperatingSystems'', ''Browser'', ''Region'', ''TrafficType'', ''VisitorType'',
      ''Weekend'']"

definition header :: "string list" where
  "header = feature_names @ [''Revenue'']"

definition float_columns :: "string list" where
  "float_columns =
     [''Administrative_Duration'', ''Informational_Duration'', ''ProductRelated_Duration'',
      ''BounceRates'', ''ExitRates'', ''PageValues'', ''SpecialDay'']"

definition int_columns :: "string list" where
  "int_columns =
     [''Administrative'', ''Informational'', ''ProductRelated'', ''OperatingSystems'',
      ''Browser'', ''Region'', ''TrafficType'']"

definition month_names :: "string list" where
  "month_names =
     [''Jan'', ''Feb'', ''Mar'', ''Apr'', ''May'', ''June'',
      ''Jul'', ''Aug'', ''Sep'', ''Oct'', ''Nov'', ''Dec'']"

definition visitor_types :: "string list" where
  "visitor_types = [''Returning_Visitor'', ''New_Visitor'', ''Other'']"

text \<open>
  A parsed cell of a valid file, by column: a finite double in the float columns, one of
  the expected strings in \<^verbatim>\<open>Month\<close> and \<^verbatim>\<open>VisitorType\<close>, a boolean in \<^verbatim>\<open>Weekend\<close> and
  \<^verbatim>\<open>Revenue\<close>, an integer elsewhere.
\<close>

definition valid_cell :: "string \<Rightarrow> cell \<Rightarrow> bool" where
  "valid_cell name v =
     (if name \<in> set float_columns then (case v of FloatV (Val x) \<Rightarrow> True | _ \<Rightarrow> False)
      else if name = ''Month'' then (case v of StrV s \<Rightarrow> s \<in> set month_names | _ \<Rightarrow> False)
      else if name = ''VisitorType'' then (case v of StrV s \<Rightarrow> s \<in> set visitor_types | _ \<Rightarrow> False)
      else if name = ''Weekend'' \<or> name = ''Revenue'' then (case v of BoolV b \<Rightarrow> True | _ \<Rightarrow> False)
      else (case v of IntV i \<Rightarrow> True | _ \<Rightarrow> False))"

definition valid_df :: "dataframe \<Rightarrow> bool" where
  "valid_df df \<longleftrightarrow> columns df = header \<and> list_all (list_all2 valid_cell header) (rows df)"

fun is_int :: "json \<Rightarrow> bool" where
  "is_int (JInt i) = True"
| "is_int v = False"

fun is_float :: "json \<Rightarrow> bool" where
  "is_float (JFloat x) = True"
| "is_float v = False"

text \<open>A number printed with exactly two decimal digits: digits, a point, two digits.\<close>

definition is_digit :: "char \<Rightarrow> bool" where
  "is_digit c \<longleftrightarrow> c \<in> set ''0123456789''"

definition two_decimals :: "string \<Rightarrow> bool" where
  "two_decimals s =
     (case rev s of
        d2 # d1 # p # ip \<Rightarrow>
          is_digit d2 \<and> is_digit d1 \<and> p = CHR ''.'' \<and> ip \<noteq> [] \<and> list_all is_digit ip
      | _ \<Rightarrow> False)"

text \<open>A rate as \<open>evaluate\<close> can return it: NaN, or a double that is not negative.\<close>

definition rate_value :: "npfloat \<Rightarrow> bool" where
  "rate_value s \<longleftrightarrow> s = NaN \<or> (\<exists>x\<ge>0. s = Val x)"

section \<open>Example runs\<close>

text \<open>
  A classifier for examples: it answers every query with the label of the first training
  row. On a training set of one row this is the nearest-neighbour classifier.
\<close>

definition first_label_classifier ::
  "nat \<Rightarrow> json list list \<Rightarrow> json list \<Rightarrow> error + classifier" where
  "first_label_classifier k X y =
     (case y of
        [] \<Rightarrow> Inl ValueError
      | l # ls \<Rightarrow> Inr (\<lambda>X_test. Inr (map (\<lambda>x. l) X_test)))"

text \<open>
  The classes of the examples: labels that are all integers, or all strings, in ascending
  order (strings by code point). The example files have no other labels.
\<close>

fun int_label :: "json \<Rightarrow> int option" where
  "int_label (JInt i) = Some i"
| "int_label v = None"

fun str_label :: "json \<Rightarrow> string option" where
  "str_label (JStr s) = Some s"
| "str_label v = None"

definition sorted_classes :: "json list \<Rightarrow> json list \<Rightarrow> error + json list" where
  "sorted_classes y_true y_pred =
     (case those (map int_label (y_true @ y_pred)) of
        Some is \<Rightarrow> Inr (map JInt (sort (remdups is)))
      | None \<Rightarrow>
          (case those (map str_label (y_true @ y_pred)) of
             Some ss \<Rightarrow> Inr (map JStr (sort (remdups ss)))
           | None \<Rightarrow> Inl ValueError))"

definition identity_permutation :: "nat \<Rightarrow> nat list" where
  "identity_permutation n = [0..<n]"

text \<open>A file of two columns, with a month that is not in the table in its second row.\<close>

definition small_df :: dataframe where
  "small_df =
     \<lparr>columns = [''Month'', ''Revenue''],
      rows = [[StrV ''June'', BoolV True], [StrV ''Jun'', BoolV False], [StrV ''Dec'', BoolV True]]\<rparr>"

text \<open>One session of a valid file, all eighteen columns.\<close>

definition full_df :: dataframe where
  "full_df =
     \<lparr>columns = header,
      rows = [[IntV 0, FloatV (Val 0), IntV 0, FloatV (Val 0), IntV 1, FloatV (Val 0),
               FloatV (Val (1 / 4)), FloatV (Val (1 / 8)), FloatV (Val 0), FloatV (Val 0),
               StrV ''Feb'', IntV 1, IntV 1, IntV 1, IntV 1, StrV ''Returning_Visitor'',
               BoolV False, BoolV False]]\<rparr>"

text \<open>Three sessions of a valid file: eighteen cells each, the last one \<^verbatim>\<open>Revenue\<close>.\<close>

definition session_1 :: "cell list" where
  "session_1 =
     [IntV 0, FloatV (Val 0), IntV 0, FloatV (Val 0), IntV 1, FloatV (Val 0),
      FloatV (Val (1 / 4)), FloatV (Val (1 / 8)), FloatV (Val 0), FloatV (Val 0),
      StrV ''Feb'', IntV 1, IntV 1, IntV 1, IntV 1, StrV ''Returning_Visitor'',
      BoolV False, BoolV True]"

definition session_2 :: "cell list" where
  "session_2 =
     [IntV 2, FloatV (Val 64), IntV 0, FloatV (Val 0), IntV 10, FloatV (Val (1255 / 2)),
      FloatV (Val 0), FloatV (Val (1 / 16)), FloatV (Val 0), FloatV (Val 0),
      StrV ''June'', IntV 2, IntV 2, IntV 1, IntV 2, StrV ''Other'',
      BoolV True, BoolV False]"

definition session_3 :: "cell list" where
  "session_3 =
     [IntV 1, FloatV (Val 8), IntV 0, FloatV (Val 0), IntV 3, FloatV (Val 75),
      FloatV (Val 0), FloatV (Val (1 / 32)), FloatV (Val (1 / 2)), FloatV (Val 0),
      StrV ''Dec'', IntV 3, IntV 2, IntV 4, IntV 1, StrV ''New_Visitor'',
      BoolV False, BoolV True]"

text \<open>The feature rows that the loader makes of them.\<close>

definition features_1 :: "json list" where
  "features_1 =
     [JInt 0, JFloat 0, JInt 0, JFloat 0, JInt 1, JFloat 0, JFloat (1 / 4), JFloat (1 / 8),
      JFloat 0, JFloat 0, JInt 1, JInt 1, JInt 1, JInt 1, JInt 1, JInt 1, JInt 0]"

definition features_2 :: "json list" where
  "features_2 =
     [JInt 2, JFloat 64, JInt 0, JFloat 0, JInt 10, JFloat (1255 / 2), JFloat 0, JFloat (1 / 16),
      JFloat 0, JFloat 0, JInt 5, JInt 2, JInt 2, JInt 1, JInt 2, JInt 0, JInt 1]"

definition features_3 :: "json list" where
  "features_3 =
     [JInt 1, JFloat 8, JInt 0, JFloat 0, JInt 3, JFloat 75, JFloat 0, JFloat (1 / 32),
      JFloat (1 / 2), JFloat 0, JInt 11, JInt 3, JInt 2, JInt 4, JInt 1, JInt 0, JInt 0]"

text \<open>A file of two sessions, the first one with revenue.\<close>

definition two_session_df :: dataframe where
  "two_session_df = \<lparr>columns = header, rows = [session_1, session_2]\<rparr>"

text \<open>A file of three sessions, two of them with revenue.\<close>

definition three_session_df :: dataframe where
  "three_session_df = \<lparr>columns = header, rows = [session_1, session_2, session_3]\<rparr>"

text \<open>
  What \<^verbatim>\<open>read_csv\<close> makes of the file with the two sessions

  \<^verbatim>\<open>0,0,0,0,1,0,0.25,0.125,0,0,Feb,1,1,1,1,Returning_Visitor,FALSE,FALSE\<close>

  \<^verbatim>\<open>0,0,0,0,2,64,0,0.5,0,0,Feb,2,2,1,2,Returning_Visitor,FALSE,FALSE\<close>

  under the expected header. pandas infers the type of a column from its fields: a column
  whose fields are all written as integers is an integer column, one with a fractional
  field is a float column. So \<^verbatim>\<open>BounceRates\<close> and \<^verbatim>\<open>ExitRates\<close> hold doubles, and the five
  other columns that the docstring of \<^verbatim>\<open>load_data\<close> calls floating-point hold integers.
\<close>

definition integer_durations_df :: dataframe where
  "integer_durations_df =
     \<lparr>columns = header,
      rows = [[IntV 0, IntV 0, IntV 0, IntV 0, IntV 1, IntV 0,
               FloatV (Val (1 / 4)), FloatV (Val (1 / 8)), IntV 0, IntV 0,
               StrV ''Feb'', IntV 1, IntV 1, IntV 1, IntV 1, StrV ''Returning_Visitor'',
               BoolV False, BoolV False],
              [IntV 0, IntV 0, IntV 0, IntV 0, IntV 2, IntV 64,
               FloatV (Val 0), FloatV (Val (1 / 2)), IntV 0, IntV 0,
               StrV ''Feb'', IntV 2, IntV 2, IntV 1, IntV 2, StrV ''Returning_Visitor'',
               BoolV False, BoolV False]]\<rparr>"

text \<open>A file of two columns whose labels are the strings \<^verbatim>\<open>yes\<close> and \<^verbatim>\<open>no\<close>.\<close>

definition yes_no_df :: dataframe where
  "yes_no_df =
     \<lparr>columns = [''Region'', ''Revenue''],
      rows = [[IntV 1, StrV ''yes''], [IntV 2, StrV ''no'']]\<rparr>"

definition example_world :: "dataframe \<Rightarrow> world" where
  "example_world df =
     \<lparr>read_csv = (\<lambda>path. if path = ''shopping.csv'' then Inr df else Inl FileNotFoundError),
      double_roundtrip = (\<lambda>x. x),
      permutation = identity_permutation,
      KNeighborsClassifier = first_label_classifier,
      label_classes = sorted_classes\<rparr>"

section \<open>Properties of the evaluator\<close>

lemma count_list_pairs: "int (count_list (zip ls ps) (t, p)) = pairs ls ps t p"
proof -
  have "((=) (t, p)) = (\<lambda>(a, b). a = t \<and> b = p)"
    by (auto simp: fun_eq_iff)
  then show ?thesis
    by (simp add: pairs_def count_list_eq_length_filter)
qed

lemma unique_labels_both:
  assumes "set (ls @ ps) = {0, 1}"
  shows "unique_labels ls ps = [0, 1]"
proof -
  have "unique_labels ls ps = sorted_list_of_set (set (ls @ ps))"
    unfolding unique_labels_def by (simp only: sorted_list_of_set_sort_remdups)
  also have "\<dots> = [0, 1]"
    by (simp only: assms) simp
  finally show ?thesis .
qed

lemma evaluate_both:
  assumes "length ls = length ps" and "set (ls @ ps) = {0, 1}"
  shows "evaluate ls ps =
         Inr (true_divide (pairs ls ps 1 1) (pairs ls ps 1 1 + pairs ls ps 1 0),
              true_divide (pairs ls ps 0 0) (pairs ls ps 0 0 + pairs ls ps 0 1))"
proof -
  have "ls \<noteq> []"
    using assms by auto
  then show ?thesis
    using assms(1) unique_labels_both [OF assms(2)]
    by (simp add: evaluate_def confusion_matrix_def item_def count_list_pairs)
qed

lemma evaluate_labels_unique_labels:
  "evaluate_labels (\<lambda>y_true y_pred. Inr (unique_labels y_true y_pred)) ls ps = evaluate ls ps"
  by (simp add: evaluate_labels_def evaluate_def confusion_matrix_labels_def confusion_matrix_def
      Let_def)

lemma length_unique_labels: "length (unique_labels ls ps) = card (set (ls @ ps))"
  by (simp add: unique_labels_def length_remdups_card_conv del: set_append)

lemma evaluate_single_class:
  assumes "set (ls @ ps) \<subseteq> {0, 1}" and "set (ls @ ps) \<noteq> {0, 1}"
  shows "\<exists>e. evaluate ls ps = Inl e"
proof -
  have "card (set (ls @ ps)) < card {0, 1 :: int}"
    using assms by (intro psubset_card_mono) auto
  then have "length (unique_labels ls ps) < 2"
    by (simp add: length_unique_labels del: set_append)
  then show ?thesis
    by (auto simp: evaluate_def confusion_matrix_def item_def Let_def split: sum.splits)
qed

lemma pairs_pos:
  assumes "length ls = length ps" and "t \<in> set ls" and "set ps \<subseteq> {0, 1}"
  shows "0 < pairs ls ps t 1 + pairs ls ps t 0"
proof -
  from assms(2) obtain i where i: "i < length ls" "ls ! i = t"
    by (auto simp: in_set_conv_nth)
  then have "(t, ps ! i) \<in> set (zip ls ps)"
    using assms(1) by (auto simp: set_zip)
  moreover have "ps ! i = 0 \<or> ps ! i = 1"
    using assms(1,3) i(1) by (metis insert_iff nth_mem singletonD subsetD)
  ultimately have "(t, 1) \<in> set (zip ls ps) \<or> (t, 0) \<in> set (zip ls ps)"
    by auto
  then have "0 < count_list (zip ls ps) (t, 1) \<or> 0 < count_list (zip ls ps) (t, 0)"
    by (metis count_list_0_iff gr0I)
  then show ?thesis
    by (auto simp flip: count_list_pairs)
qed

lemma pairs_zero:
  assumes "t \<notin> set ls"
  shows "pairs ls ps t p = 0"
proof -
  have "(t, p) \<notin> set (zip ls ps)"
    using assms by (auto dest: set_zip_leftD)
  then show ?thesis
    by (simp flip: count_list_pairs add: count_list_0_iff)
qed

lemma fl_half: "fl (1 / 2) = 1 / 2"
  by code_simp

text \<open>
  Claim C1. For label and prediction lists of the same length with values in \<open>{0, 1}\<close>,
  the labels containing both classes, \<open>evaluate\<close> returns the pair (sensitivity,
  specificity), where sensitivity is the double \<open>TP / (TP + FN)\<close> and specificity is the
  double \<open>TN / (TN + FP)\<close>, the four counts being those of the confusion matrix with true
  labels as rows and predicted labels as columns, classes ordered 0 then 1:
  \<open>TP = pairs 1 1\<close>, \<open>FN = pairs 1 0\<close>, \<open>TN = pairs 0 0\<close>, \<open>FP = pairs 0 1\<close>.
\<close>

theorem evaluate_rates:
  assumes "length labels = length predictions"
    and "set labels = {0, 1}"
    and "set predictions \<subseteq> {0, 1}"
  shows "evaluate labels predictions =
         Inr (Val (fl (of_int (pairs labels predictions 1 1) /
                      of_int (pairs labels predictions 1 1 + pairs labels predictions 1 0))),
              Val (fl (of_int (pairs labels predictions 0 0) /
                      of_int (pairs labels predictions 0 0 + pairs labels predictions 0 1))))"
proof -
  have both: "set (labels @ predictions) = {0, 1}"
    using assms(2,3) by auto
  have "0 < pairs labels predictions 1 1 + pairs labels predictions 1 0"
    using assms by (intro pairs_pos) auto
  moreover have "0 < pairs labels predictions 0 1 + pairs labels predictions 0 0"
    using assms by (intro pairs_pos) auto
  ultimately show ?thesis
    using evaluate_both [OF assms(1) both] by (simp add: true_divide_def add.commute)
qed

text \<open>The example of the claim: labels \<open>[1, 1, 0, 0]\<close>, predictions \<open>[1, 0, 0, 1]\<close>.\<close>

theorem evaluate_rates_witness:
  "length [1, 1, 0, 0 :: int] = length [1, 0, 0, 1 :: int] \<and>
   set [1, 1, 0, 0 :: int] = {0, 1} \<and> set [1, 0, 0, 1 :: int] \<subseteq> {0, 1} \<and>
   evaluate [1, 1, 0, 0] [1, 0, 0, 1] = Inr (Val (1 / 2), Val (1 / 2))"
  using evaluate_rates [of "[1, 1, 0, 0]" "[1, 0, 0, 1]"] fl_half
  by (auto simp: pairs_def)

text \<open>
  Claim C2. With labels and predictions in \<open>{0, 1}\<close>: when the labels hold no negative
  example, \<open>evaluate\<close> either raises or returns NaN as the specificity; when they hold no
  positive example, it either raises or returns NaN as the sensitivity. No number is
  returned for the metric whose class is absent.
\<close>

theorem evaluate_degenerate:
  assumes "set labels \<subseteq> {0, 1}" and "set predictions \<subseteq> {0, 1}"
  shows "(0 \<notin> set labels \<longrightarrow>
            (\<exists>e. evaluate labels predictions = Inl e) \<or>
            (\<exists>s. evaluate labels predictions = Inr (s, NaN))) \<and>
         (1 \<notin> set labels \<longrightarrow>
            (\<exists>e. evaluate labels predictions = Inl e) \<or>
            (\<exists>s. evaluate labels predictions = Inr (NaN, s)))"
proof (cases "length labels = length predictions \<and> set (labels @ predictions) = {0, 1}")
  case True
  then show ?thesis
    using evaluate_both [of labels predictions]
    by (auto simp: pairs_zero true_divide_def simp del: set_append)
next
  case False
  have "\<exists>e. evaluate labels predictions = Inl e"
  proof (cases "length labels = length predictions")
    case True
    with False have "set (labels @ predictions) \<noteq> {0, 1}" by blast
    moreover have "set (labels @ predictions) \<subseteq> {0, 1}" using assms by auto
    ultimately show ?thesis by (rule evaluate_single_class [rotated])
  next
    case False
    then show ?thesis by (simp add: evaluate_def confusion_matrix_def)
  qed
  then show ?thesis by blast
qed

text \<open>
  The example of the claim, labels and predictions all 1, and its mirror image with
  labels all 0.
\<close>

theorem evaluate_degenerate_witness:
  "(set [1, 1, 1, 1 :: int] \<subseteq> {0, 1} \<and> 0 \<notin> set [1, 1, 1, 1 :: int] \<and>
    ((\<exists>e. evaluate [1, 1, 1, 1] [1, 1, 1, 1] = Inl e) \<or>
     (\<exists>s. evaluate [1, 1, 1, 1] [1, 1, 1, 1] = Inr (s, NaN)))) \<and>
   (set [0, 0 :: int] \<subseteq> {0, 1} \<and> set [0, 1 :: int] \<subseteq> {0, 1} \<and> 1 \<notin> set [0, 0 :: int] \<and>
    ((\<exists>e. evaluate [0, 0] [0, 1] = Inl e) \<or>
     (\<exists>s. evaluate [0, 0] [0, 1] = Inr (NaN, s))))"
  using evaluate_degenerate [of "[1, 1, 1, 1]" "[1, 1, 1, 1]"]
    evaluate_degenerate [of "[0, 0]" "[0, 1]"]
  by simp

text \<open>What the two degenerate cases look like on concrete lists.\<close>

lemma evaluate_single_label: "evaluate [1, 1, 1, 1] [1, 1, 1, 1] = Inl IndexError"
  by code_simp

lemma evaluate_no_negative_label: "evaluate [1, 1, 1, 1] [1, 0, 1, 1] = Inr (Val (3 / 4), NaN)"
  by code_simp

section \<open>Properties of the loader\<close>

lemma columns_transform_df: "columns (transform_df df) = columns df"
  by (simp add: transform_df_def replace_def)

lemma rows_transform_df:
  "rows (transform_df df) = map (\<lambda>r. map2 (replace_in_column mapping) (columns df) r) (rows df)"
  by (simp add: transform_df_def replace_def)

lemma wf_df_row: "wf_df df \<Longrightarrow> i < length (rows df) \<Longrightarrow> length (rows df ! i) = length (columns df)"
  by (simp add: wf_df_def list_all_length)

lemma transform_df_cell:
  assumes "wf_df df" and "i < length (rows df)" and "j < length (columns df)"
  shows "rows (transform_df df) ! i ! j = replace_in_column mapping (columns df ! j) (rows df ! i ! j)"
  using assms wf_df_row [OF assms(1,2)] by (simp add: rows_transform_df)

lemma load_data_result:
  assumes "read_csv w filename = Inr df" and "1 < length (columns df)"
  shows "load_data w filename =
         Inr (map (\<lambda>r. map (json_value (double_roundtrip w)) (butlast r)) (rows (transform_df df)),
              map (\<lambda>r. json_value (double_roundtrip w) (last r)) (rows (transform_df df)))"
proof -
  have "length (butlast (columns df)) \<noteq> 0"
    using assms(2) by simp
  then have "butlast (columns df) \<noteq> []"
    by (simp only: length_0_conv not_False_eq_True)
  moreover have "columns df \<noteq> []"
    using assms(2) by auto
  ultimately have "butlast (columns df) \<noteq> []" and "columns df \<noteq> []"
    by simp_all
  then show ?thesis
    using assms(1)
    by (simp add: load_data_def iloc_last_def iloc_all_but_last_def columns_transform_df
        dataframe_to_list_of_lists_def series_to_list_def Let_def comp_def)
qed

lemma load_data_labels:
  assumes "read_csv w filename = Inr df" and "columns df \<noteq> []"
  shows "\<exists>evidence. load_data w filename =
           Inr (evidence,
                map (\<lambda>r. json_value (double_roundtrip w) (last r)) (rows (transform_df df)))"
  using assms
  by (simp add: load_data_def iloc_last_def columns_transform_df series_to_list_def Let_def
      comp_def)

lemma load_data_cell:
  assumes "read_csv w filename = Inr df" and "wf_df df"
    and "i < length (rows df)" and "j < length (columns df)"
  shows "\<exists>evidence labels. load_data w filename = Inr (evidence, labels) \<and>
           length labels = length (rows df) \<and>
           (1 < length (columns df) \<longrightarrow>
              length evidence = length (rows df) \<and>
              length (evidence ! i) = length (columns df) - 1) \<and>
           (if Suc j = length (columns df) then labels ! i else evidence ! i ! j) =
             json_value (double_roundtrip w)
               (replace_in_column mapping (columns df ! j) (rows df ! i ! j))"
proof -
  let ?t = "rows (transform_df df) ! i"
  have ne: "columns df \<noteq> []" using assms(4) by auto
  have len: "length ?t = length (columns df)"
    using assms(2,3) wf_df_row [OF assms(2,3)] by (simp add: rows_transform_df)
  have cell: "?t ! j = replace_in_column mapping (columns df ! j) (rows df ! i ! j)"
    by (rule transform_df_cell [OF assms(2,3,4)])
  have n: "length (rows (transform_df df)) = length (rows df)"
    by (simp add: rows_transform_df)
  have tne: "?t \<noteq> []" using len ne by auto
  have last: "last ?t = ?t ! j" if "Suc j = length (columns df)"
  proof -
    from that have "j = length ?t - 1" using len by simp
    then show ?thesis using tne by (simp add: last_conv_nth)
  qed
  show ?thesis
  proof (cases "1 < length (columns df)")
    case two: True
    show ?thesis
    proof (cases "Suc j = length (columns df)")
      case True
      then show ?thesis
        using last [OF True] cell len n assms(3) two
        by (simp add: load_data_result [OF assms(1) two])
    next
      case False
      then have "j < length (butlast ?t)" using assms(4) len by simp
      then have "butlast ?t ! j = ?t ! j" by (simp add: nth_butlast)
      then show ?thesis
        using False cell len n assms(3,4) two
        by (simp add: load_data_result [OF assms(1) two])
    qed
  next
    case False
    then have j: "Suc j = length (columns df)"
      using assms(4) by simp
    from load_data_labels [OF assms(1) ne] obtain evidence where
      "load_data w filename =
         Inr (evidence,
              map (\<lambda>r. json_value (double_roundtrip w) (last r)) (rows (transform_df df)))"
      by blast
    then show ?thesis
      using False j last [OF j] cell n assms(3) by simp
  qed
qed

lemma length_header: "length header = 18" and length_feature_names: "length feature_names = 17"
  by (simp_all add: header_def feature_names_def)

lemma header_nth: "j < 17 \<Longrightarrow> header ! j = feature_names ! j" and header_last: "header ! 17 = ''Revenue''"
  by (simp_all add: header_def nth_append length_feature_names)

lemma load_data_header_rows:
  assumes "read_csv w filename = Inr df" and "wf_df df" and "columns df = header"
  shows "\<exists>evidence labels. load_data w filename = Inr (evidence, labels) \<and>
           length evidence = length (rows df) \<and> length labels = length evidence \<and>
           (\<forall>i < length (rows df).
              length (evidence ! i) = 17 \<and>
              (\<forall>j < 17. evidence ! i ! j =
                 json_value (double_roundtrip w)
                   (replace_in_column mapping (feature_names ! j) (rows df ! i ! j))) \<and>
              labels ! i =
                 json_value (double_roundtrip w)
                   (replace_in_column mapping ''Revenue'' (rows df ! i ! 17)))"
proof -
  have two: "1 < length (columns df)" using assms(3) length_header by simp
  define evidence where
    "evidence = map (\<lambda>r. map (json_value (double_roundtrip w)) (butlast r)) (rows (transform_df df))"
  define labels where
    "labels = map (\<lambda>r. json_value (double_roundtrip w) (last r)) (rows (transform_df df))"
  have res: "load_data w filename = Inr (evidence, labels)"
    unfolding evidence_def labels_def by (rule load_data_result [OF assms(1) two])
  have n: "length evidence = length (rows df)" "length labels = length evidence"
    by (simp_all add: evidence_def labels_def rows_transform_df)
  have row: "length (evidence ! i) = 17 \<and>
              (\<forall>j < 17. evidence ! i ! j =
                 json_value (double_roundtrip w)
                   (replace_in_column mapping (feature_names ! j) (rows df ! i ! j))) \<and>
              labels ! i =
                 json_value (double_roundtrip w)
                   (replace_in_column mapping ''Revenue'' (rows df ! i ! 17))"
    if i: "i < length (rows df)" for i
  proof -
    have cell: "(if Suc j = 18 then labels ! i else evidence ! i ! j) =
             json_value (double_roundtrip w)
               (replace_in_column mapping (header ! j) (rows df ! i ! j))"
        and len: "length (evidence ! i) = 17" if "j < 18" for j
      using load_data_cell [OF assms(1,2) i, of j] that res
      by (simp_all add: assms(3) length_header)
    have "labels ! i = json_value (double_roundtrip w)
               (replace_in_column mapping ''Revenue'' (rows df ! i ! 17))"
      using cell [of 17] by (simp add: header_last)
    moreover have "evidence ! i ! j = json_value (double_roundtrip w)
                   (replace_in_column mapping (feature_names ! j) (rows df ! i ! j))"
      if "j < 17" for j
      using cell [of j] that by (simp add: header_nth)
    ultimately show ?thesis using len [of 0] by simp
  qed
  show ?thesis using res n row by blast
qed

subsection \<open>The example files\<close>

lemma read_example_world: "read_csv (example_world df) ''shopping.csv'' = Inr df"
  by (simp add: example_world_def)

lemma wf_small_df: "wf_df small_df"
  by (simp add: wf_df_def small_df_def)

lemma wf_two_session_df: "wf_df two_session_df"
  by (simp add: wf_df_def two_session_df_def session_1_def session_2_def length_header)

lemma wf_three_session_df: "wf_df three_session_df"
  by (simp add: wf_df_def three_session_df_def session_1_def session_2_def session_3_def
      length_header)

lemma wf_full_df: "wf_df full_df"
  by (simp add: wf_df_def full_df_def length_header)

lemma valid_full_df: "valid_df full_df"
  by code_simp

lemma load_data_full_df:
  "load_data (example_world full_df) ''shopping.csv'' =
     Inr ([[JInt 0, JFloat 0, JInt 0, JFloat 0, JInt 1, JFloat 0, JFloat (1 / 4), JFloat (1 / 8),
            JFloat 0, JFloat 0, JInt 1, JInt 1, JInt 1, JInt 1, JInt 1, JInt 1, JInt 0]],
          [JInt 0])"
  by (simp add: load_data_def example_world_def full_df_def transform_df_def replace_def
        iloc_last_def iloc_all_but_last_def dataframe_to_list_of_lists_def series_to_list_def
        header_def feature_names_def replace_in_column_def replace_value_def mapping_def)

subsection \<open>Shape of the result\<close>

text \<open>
  Claim C3. For a file whose header is the expected one, \<open>load_data\<close> returns a feature
  matrix with one row per row of the file, in file order, each of exactly 17 elements,
  where element \<open>j\<close> is the value of source column \<open>j\<close> (every column except
  \<^verbatim>\<open>Revenue\<close>, in the order of the header), and a label vector of the same length as the
  matrix whose entry \<open>i\<close> is the \<^verbatim>\<open>Revenue\<close> value of row \<open>i\<close>.
\<close>

theorem load_data_shape:
  assumes "read_csv w filename = Inr df" and "wf_df df" and "columns df = header"
  shows "\<exists>evidence labels. load_data w filename = Inr (evidence, labels) \<and>
           length evidence = length (rows df) \<and> length labels = length evidence \<and>
           (\<forall>i < length (rows df).
              length (evidence ! i) = 17 \<and>
              (\<forall>j < 17. evidence ! i ! j =
                 json_value (double_roundtrip w)
                   (replace_in_column mapping (feature_names ! j) (rows df ! i ! j))) \<and>
              labels ! i =
                 json_value (double_roundtrip w)
                   (replace_in_column mapping ''Revenue'' (rows df ! i ! 17)))"
  using assms by (rule load_data_header_rows)

theorem load_data_shape_witness:
  "read_csv (example_world full_df) ''shopping.csv'' = Inr full_df \<and> wf_df full_df \<and>
   columns full_df = header \<and>
   (\<exists>evidence labels.
      load_data (example_world full_df) ''shopping.csv'' = Inr (evidence, labels) \<and>
      length evidence = 1 \<and> length labels = 1 \<and> length (evidence ! 0) = 17 \<and>
      evidence ! 0 ! 10 = JInt 1 \<and> labels ! 0 = JInt 0)"
proof -
  have c: "columns full_df = header"
    by (simp add: full_df_def)
  from load_data_shape [OF read_example_world wf_full_df c]
  obtain evidence labels where
    res: "load_data (example_world full_df) ''shopping.csv'' = Inr (evidence, labels)" and
    n: "length evidence = length (rows full_df)" "length labels = length evidence" and
    row: "\<forall>i < length (rows full_df). length (evidence ! i) = 17 \<and>
              (\<forall>j < 17. evidence ! i ! j =
                 json_value (double_roundtrip (example_world full_df))
                   (replace_in_column mapping (feature_names ! j) (rows full_df ! i ! j))) \<and>
              labels ! i =
                 json_value (double_roundtrip (example_world full_df))
                   (replace_in_column mapping ''Revenue'' (rows full_df ! i ! 17))"
    by blast
  have one: "length (rows full_df) = 1"
    by (simp add: full_df_def)
  then have "length (evidence ! 0) = 17"
    using row by simp
  moreover have "evidence ! 0 ! 10 = JInt 1" "labels ! 0 = JInt 0"
    using res by (auto simp: load_data_full_df)
  ultimately show ?thesis
    using res n one c read_example_world wf_full_df by auto
qed

subsection \<open>The remapping tables\<close>

lemma month_table_all:
  "list_all (\<lambda>k. replace_in_column mapping ''Month'' (StrV (month_names ! k)) = IntV (int k)) [0..<12]"
  by code_simp

lemma month_table:
  "k < 12 \<Longrightarrow> replace_in_column mapping ''Month'' (StrV (month_names ! k)) = IntV (int k)"
  using month_table_all by (simp add: list_all_iff)

lemma visitor_table:
  "s \<in> set visitor_types \<Longrightarrow>
   replace_in_column mapping ''VisitorType'' (StrV s) = IntV (if s = ''Returning_Visitor'' then 1 else 0)"
  by (auto simp: replace_in_column_def replace_value_def mapping_def visitor_types_def)

lemma boolean_table:
  "replace_in_column mapping ''Weekend'' (BoolV b) = IntV (if b then 1 else 0)"
  "replace_in_column mapping ''Revenue'' (BoolV b) = IntV (if b then 1 else 0)"
  by (simp_all add: replace_in_column_def replace_value_def mapping_def)

text \<open>
  Claim C4. In a row whose \<^verbatim>\<open>Month\<close> field is the \<open>k\<close>-th of the twelve expected strings
  (\<open>month_names\<close>: the three-letter abbreviations, with \<^verbatim>\<open>June\<close> in full), the loader
  puts the integer \<open>k\<close>, from 0 to 11, in its place, in the transformed frame and in the
  feature row it returns.
\<close>

theorem month_remapped:
  assumes "read_csv w filename = Inr df" and "wf_df df"
    and "i < length (rows df)" and "Suc j < length (columns df)"
    and "columns df ! j = ''Month''"
    and "k < 12" and "rows df ! i ! j = StrV (month_names ! k)"
  shows "rows (transform_df df) ! i ! j = IntV (int k) \<and>
         (\<exists>evidence labels. load_data w filename = Inr (evidence, labels) \<and>
            evidence ! i ! j = JInt (int k))"
proof -
  have j: "j < length (columns df)" using assms(4) by simp
  have "rows (transform_df df) ! i ! j = IntV (int k)"
    using transform_df_cell [OF assms(2,3) j] assms(5,6,7) by (simp add: month_table)
  moreover have "\<exists>evidence labels. load_data w filename = Inr (evidence, labels) \<and>
            evidence ! i ! j = JInt (int k)"
    using load_data_cell [OF assms(1,2,3) j] assms(4,5,6,7) by (auto simp: month_table)
  ultimately show ?thesis by blast
qed

theorem month_remapped_witness:
  "read_csv (example_world three_session_df) ''shopping.csv'' = Inr three_session_df \<and>
   wf_df three_session_df \<and>
   (1 :: nat) < length (rows three_session_df) \<and> Suc 10 < length (columns three_session_df) \<and>
   columns three_session_df ! 10 = ''Month'' \<and> (5 :: nat) < 12 \<and>
   rows three_session_df ! 1 ! 10 = StrV ''June'' \<and> month_names ! 5 = ''June'' \<and>
   rows (transform_df three_session_df) ! 1 ! 10 = IntV 5 \<and>
   (\<exists>evidence labels.
      load_data (example_world three_session_df) ''shopping.csv'' = Inr (evidence, labels) \<and>
      evidence ! 1 ! 10 = JInt 5)"
  using month_remapped [of "example_world three_session_df" "''shopping.csv''"
      three_session_df 1 10 5]
    read_example_world [of three_session_df] wf_three_session_df
  by (simp add: three_session_df_def session_2_def header_def feature_names_def month_names_def)

text \<open>
  Claim C5. A value of one of the four remapped columns (\<^verbatim>\<open>Month\<close>, \<^verbatim>\<open>VisitorType\<close>,
  \<^verbatim>\<open>Weekend\<close>, \<^verbatim>\<open>Revenue\<close>) that is not a key of that column's table is left as it is by
  the remapping, and the loader does not reject it: it returns the value, converted to
  a Python value like every other cell, at its place in the result.
\<close>

theorem unmapped_value_unchanged:
  assumes "read_csv w filename = Inr df" and "wf_df df"
    and "i < length (rows df)" and "j < length (columns df)"
    and "columns df ! j \<in> {''Month'', ''VisitorType'', ''Weekend'', ''Revenue''}"
    and "map_of mapping (columns df ! j) = Some m"
    and "rows df ! i ! j \<notin> fst ` set m"
  shows "rows (transform_df df) ! i ! j = rows df ! i ! j \<and>
         (\<exists>evidence labels. load_data w filename = Inr (evidence, labels) \<and>
            (if Suc j = length (columns df) then labels ! i else evidence ! i ! j) =
              json_value (double_roundtrip w) (rows df ! i ! j))"
proof -
  have "map_of m (rows df ! i ! j) = None"
    using assms(7) by (simp add: map_of_eq_None_iff)
  then have same: "replace_in_column mapping (columns df ! j) (rows df ! i ! j) = rows df ! i ! j"
    using assms(6) by (simp add: replace_in_column_def replace_value_def)
  have "rows (transform_df df) ! i ! j = rows df ! i ! j"
    using transform_df_cell [OF assms(2,3,4)] same by simp
  moreover have "\<exists>evidence labels. load_data w filename = Inr (evidence, labels) \<and>
            (if Suc j = length (columns df) then labels ! i else evidence ! i ! j) =
              json_value (double_roundtrip w) (rows df ! i ! j)"
    using load_data_cell [OF assms(1,2,3,4)] unfolding same by blast
  ultimately show ?thesis by blast
qed

text \<open>The month \<^verbatim>\<open>Jun\<close>, which the table does not have, comes out as the string it was.\<close>

theorem unmapped_value_unchanged_witness:
  "read_csv (example_world small_df) ''shopping.csv'' = Inr small_df \<and> wf_df small_df \<and>
   (1 :: nat) < length (rows small_df) \<and> (0 :: nat) < length (columns small_df) \<and>
   columns small_df ! 0 \<in> {''Month'', ''VisitorType'', ''Weekend'', ''Revenue''} \<and>
   rows small_df ! 1 ! 0 = StrV ''Jun'' \<and>
   StrV ''Jun'' \<notin> fst ` set (the (map_of mapping ''Month'')) \<and>
   rows (transform_df small_df) ! 1 ! 0 = StrV ''Jun'' \<and>
   (\<exists>evidence labels. load_data (example_world small_df) ''shopping.csv'' = Inr (evidence, labels) \<and>
      evidence ! 1 ! 0 = JStr ''Jun'')"
  using unmapped_value_unchanged [of "example_world small_df" "''shopping.csv''" small_df 1 0
      "the (map_of mapping ''Month'')"]
    read_example_world [of small_df] wf_small_df
  by (simp add: small_df_def mapping_def)

text \<open>
  Claim C10. The loader turns each of the three \<^verbatim>\<open>VisitorType\<close> strings into 0 or 1:
  \<^verbatim>\<open>Returning_Visitor\<close> into 1, and both \<^verbatim>\<open>New_Visitor\<close> and \<^verbatim>\<open>Other\<close> into 0.
\<close>

theorem visitor_type_binary:
  assumes "read_csv w filename = Inr df" and "wf_df df"
    and "i < length (rows df)" and "Suc j < length (columns df)"
    and "columns df ! j = ''VisitorType''"
    and "rows df ! i ! j = StrV s" and "s \<in> set visitor_types"
  shows "\<exists>evidence labels. load_data w filename = Inr (evidence, labels) \<and>
            evidence ! i ! j = JInt (if s = ''Returning_Visitor'' then 1 else 0) \<and>
            (s = ''Other'' \<longrightarrow> evidence ! i ! j = JInt 0) \<and>
            (s = ''New_Visitor'' \<longrightarrow> evidence ! i ! j = JInt 0)"
proof -
  have j: "j < length (columns df)" using assms(4) by simp
  show ?thesis
    using load_data_cell [OF assms(1,2,3) j] assms(4,5,6) visitor_table [OF assms(7)]
    by auto
qed

theorem visitor_type_binary_witness:
  "read_csv (example_world three_session_df) ''shopping.csv'' = Inr three_session_df \<and>
   wf_df three_session_df \<and>
   (1 :: nat) < length (rows three_session_df) \<and> Suc 15 < length (columns three_session_df) \<and>
   columns three_session_df ! 15 = ''VisitorType'' \<and>
   rows three_session_df ! 1 ! 15 = StrV ''Other'' \<and> ''Other'' \<in> set visitor_types \<and>
   (\<exists>evidence labels.
      load_data (example_world three_session_df) ''shopping.csv'' = Inr (evidence, labels) \<and>
      evidence ! 1 ! 15 = JInt 0)"
  using visitor_type_binary [of "example_world three_session_df" "''shopping.csv''"
      three_session_df 1 15 "''Other''"]
    read_example_world [of three_session_df] wf_three_session_df
  by (simp add: three_session_df_def session_2_def header_def feature_names_def visitor_types_def)

subsection \<open>Types of the values\<close>

lemma valid_df_wf: "valid_df df \<Longrightarrow> wf_df df"
  by (auto simp: valid_df_def wf_df_def list_all_iff dest!: list_all2_lengthD)

lemma valid_df_cell:
  assumes "valid_df df" and "i < length (rows df)" and "j < 18"
  shows "valid_cell (header ! j) (rows df ! i ! j)"
proof -
  have "list_all2 valid_cell header (rows df ! i)"
    using assms(1,2) by (simp add: valid_df_def list_all_length)
  then show ?thesis
    using assms(3) by (simp add: list_all2_nthD length_header)
qed

lemma float_columns_unmapped_all: "list_all (\<lambda>name. map_of mapping name = None) float_columns"
  by code_simp

lemma int_columns_plain_all:
  "list_all (\<lambda>name. map_of mapping name = None \<and> name \<notin> set float_columns \<and>
      name \<noteq> ''Month'' \<and> name \<noteq> ''VisitorType'' \<and> name \<noteq> ''Weekend'' \<and> name \<noteq> ''Revenue'')
     int_columns"
  by code_simp

lemma feature_names_classes:
  "list_all (\<lambda>name. name \<in> set float_columns \<or> name \<in> set int_columns \<or>
      name = ''Month'' \<or> name = ''VisitorType'' \<or> name = ''Weekend'') feature_names"
  by code_simp

lemma remapped_not_float:
  "''Month'' \<notin> set float_columns" "''VisitorType'' \<notin> set float_columns"
  "''Weekend'' \<notin> set float_columns" "''Revenue'' \<notin> set float_columns"
  by (simp_all add: float_columns_def)

lemma float_kind:
  assumes "name \<in> set float_columns" and "valid_cell name v"
  shows "is_float (json_value rt (replace_in_column mapping name v))"
proof -
  have "map_of mapping name = None"
    using float_columns_unmapped_all assms(1) by (simp add: list_all_iff)
  then show ?thesis
    using assms by (auto simp: valid_cell_def replace_in_column_def split: cell.splits npfloat.splits)
qed

lemma int_kind:
  assumes "name \<in> set int_columns" and "valid_cell name v"
  shows "is_int (json_value rt (replace_in_column mapping name v))"
proof -
  have "map_of mapping name = None \<and> name \<notin> set float_columns \<and>
      name \<noteq> ''Month'' \<and> name \<noteq> ''VisitorType'' \<and> name \<noteq> ''Weekend'' \<and> name \<noteq> ''Revenue''"
    using int_columns_plain_all assms(1) by (simp add: list_all_iff)
  then show ?thesis
    using assms(2) by (auto simp: valid_cell_def replace_in_column_def split: cell.splits)
qed

lemma month_kind:
  assumes "valid_cell ''Month'' v"
  shows "is_int (json_value rt (replace_in_column mapping ''Month'' v))"
proof -
  from assms obtain s where s: "v = StrV s" "s \<in> set month_names"
    by (auto simp: valid_cell_def remapped_not_float split: cell.splits)
  moreover have "length month_names = 12"
    by (simp add: month_names_def)
  ultimately obtain k where "k < 12" "s = month_names ! k"
    by (metis in_set_conv_nth)
  then show ?thesis
    using s(1) by (simp add: month_table)
qed

lemma visitor_kind:
  assumes "valid_cell ''VisitorType'' v"
  shows "is_int (json_value rt (replace_in_column mapping ''VisitorType'' v))"
proof -
  from assms obtain s where s: "v = StrV s" "s \<in> set visitor_types"
    by (auto simp: valid_cell_def remapped_not_float split: cell.splits)
  then show ?thesis
    by (simp add: visitor_table)
qed

lemma weekend_kind:
  assumes "valid_cell ''Weekend'' v"
  shows "is_int (json_value rt (replace_in_column mapping ''Weekend'' v))"
proof -
  from assms obtain b where "v = BoolV b"
    by (auto simp: valid_cell_def remapped_not_float split: cell.splits)
  then show ?thesis
    by (simp add: boolean_table)
qed

lemma revenue_kind:
  assumes "valid_cell ''Revenue'' v"
  shows "is_int (json_value rt (replace_in_column mapping ''Revenue'' v))"
proof -
  from assms obtain b where "v = BoolV b"
    by (auto simp: valid_cell_def remapped_not_float split: cell.splits)
  then show ?thesis
    by (simp add: boolean_table)
qed

lemma feature_kind:
  assumes "name \<in> set feature_names" and "valid_cell name v"
  shows "if name \<in> set float_columns
         then is_float (json_value rt (replace_in_column mapping name v))
         else is_int (json_value rt (replace_in_column mapping name v))"
proof (cases "name \<in> set float_columns")
  case True
  then show ?thesis using float_kind [OF True assms(2)] by simp
next
  case False
  then consider "name \<in> set int_columns" | "name = ''Month''" | "name = ''VisitorType''"
    | "name = ''Weekend''"
    using feature_names_classes assms(1) by (auto simp: list_all_iff)
  then have "is_int (json_value rt (replace_in_column mapping name v))"
    using assms(2) by cases (auto intro: int_kind month_kind visitor_kind weekend_kind)
  then show ?thesis using False by simp
qed

text \<open>
  What the loader does keep is the kind of each parsed cell: from a frame whose cells have
  the per-column kinds of \<open>valid_df\<close>, the feature rows hold a floating-point number at
  each of the seven float columns and an integer at each of the other ten, and the labels
  are integers.
\<close>

lemma load_data_keeps_kinds:
  assumes "read_csv w filename = Inr df" and "valid_df df"
  shows "\<exists>evidence labels. load_data w filename = Inr (evidence, labels) \<and>
           length evidence = length (rows df) \<and> length labels = length (rows df) \<and>
           (\<forall>i < length (rows df).
              length (evidence ! i) = 17 \<and>
              (\<forall>j < 17. if feature_names ! j \<in> set float_columns
                        then is_float (evidence ! i ! j) else is_int (evidence ! i ! j)) \<and>
              is_int (labels ! i))"
proof -
  have wf: "wf_df df" using assms(2) by (rule valid_df_wf)
  have cols: "columns df = header" using assms(2) by (simp add: valid_df_def)
  from load_data_header_rows [OF assms(1) wf cols]
  obtain evidence labels where res: "load_data w filename = Inr (evidence, labels)"
    and n: "length evidence = length (rows df)" "length labels = length evidence"
    and row: "\<And>i. i < length (rows df) \<Longrightarrow>
              length (evidence ! i) = 17 \<and>
              (\<forall>j < 17. evidence ! i ! j =
                 json_value (double_roundtrip w)
                   (replace_in_column mapping (feature_names ! j) (rows df ! i ! j))) \<and>
              labels ! i =
                 json_value (double_roundtrip w)
                   (replace_in_column mapping ''Revenue'' (rows df ! i ! 17))"
    by blast
  have kinds: "length (evidence ! i) = 17 \<and>
              (\<forall>j < 17. if feature_names ! j \<in> set float_columns
                        then is_float (evidence ! i ! j) else is_int (evidence ! i ! j)) \<and>
              is_int (labels ! i)" if i: "i < length (rows df)" for i
  proof -
    have "if feature_names ! j \<in> set float_columns
          then is_float (evidence ! i ! j) else is_int (evidence ! i ! j)" if j: "j < 17" for j
    proof -
      have "valid_cell (feature_names ! j) (rows df ! i ! j)"
        using valid_df_cell [OF assms(2) i, of j] j by (simp add: header_nth)
      moreover have "feature_names ! j \<in> set feature_names"
        using j by (simp add: length_feature_names)
      ultimately show ?thesis
        using feature_kind [of "feature_names ! j" "rows df ! i ! j" "double_roundtrip w"] row [OF i] j
        by simp
    qed
    moreover have "is_int (labels ! i)"
      using valid_df_cell [OF assms(2) i, of 17] row [OF i] by (simp add: header_last revenue_kind)
    ultimately show ?thesis using row [OF i] by blast
  qed
  show ?thesis using res n kinds by auto
qed

lemma integer_durations_not_valid: "\<not> valid_df integer_durations_df"
  by code_simp

text \<open>
  Claim C6 fails on the code. For the file of \<open>integer_durations_df\<close>, in which the fields
  of \<^verbatim>\<open>Administrative_Duration\<close> are written as integers, \<open>load_data\<close> returns the integer
  0 at that column (column 1), which the claim and the docstring of \<^verbatim>\<open>load_data\<close> give
  as a floating-point number; the same holds for \<^verbatim>\<open>Informational_Duration\<close>,
  \<^verbatim>\<open>ProductRelated_Duration\<close>, \<^verbatim>\<open>PageValues\<close> and \<^verbatim>\<open>SpecialDay\<close>. Nothing in the loader
  fixes the type of a column: it is whatever pandas infers from the fields.
\<close>

theorem load_data_integer_durations:
  "load_data (example_world integer_durations_df) ''shopping.csv'' =
     Inr ([[JInt 0, JInt 0, JInt 0, JInt 0, JInt 1, JInt 0, JFloat (1 / 4), JFloat (1 / 8),
            JInt 0, JInt 0, JInt 1, JInt 1, JInt 1, JInt 1, JInt 1, JInt 1, JInt 0],
           [JInt 0, JInt 0, JInt 0, JInt 0, JInt 2, JInt 64, JFloat 0, JFloat (1 / 2),
            JInt 0, JInt 0, JInt 1, JInt 2, JInt 2, JInt 1, JInt 2, JInt 1, JInt 0]],
          [JInt 0, JInt 0]) \<and>
   feature_names ! 1 = ''Administrative_Duration'' \<and>
   feature_names ! 1 \<in> set float_columns \<and>
   \<not> is_float (JInt 0)"
  by (simp add: load_data_def example_world_def integer_durations_df_def transform_df_def
      replace_def iloc_last_def iloc_all_but_last_def dataframe_to_list_of_lists_def
      series_to_list_def header_def feature_names_def float_columns_def replace_in_column_def
      replace_value_def mapping_def)

section \<open>Properties of the splitter\<close>

lemma n_test_eq: "nat \<lceil>TEST_SIZE * of_nat n\<rceil> = (2 * n + 4) div 5"
proof -
  have "TEST_SIZE * of_nat n = of_int (2 * int n) / of_int 5"
    by (simp add: TEST_SIZE_def)
  then have "\<lceil>TEST_SIZE * of_nat n\<rceil> = - (- (2 * int n) div 5)"
    by (simp only: ceiling_divide_eq_div)
  also have "\<dots> = int ((2 * n + 4) div 5)"
    by (simp add: zdiv_int)
  finally show ?thesis by simp
qed

lemma test_count_bounds:
  fixes n :: nat
  defines "t \<equiv> (2 * n + 4) div 5"
  shows "2 * n \<le> 5 * t" and "5 * t < 2 * n + 5" and "t \<le> n" and "2 \<le> n \<Longrightarrow> t < n"
    and "n < 2 \<Longrightarrow> n - t = 0"
proof -
  have eq: "5 * t + (2 * n + 4) mod 5 = 2 * n + 4"
    unfolding t_def by (rule mult_div_mod_eq)
  have lt: "(2 * n + 4) mod 5 < 5"
    by simp
  show "2 * n \<le> 5 * t" "5 * t < 2 * n + 5" "t \<le> n"
    using eq lt by linarith+
  show "t < n" if "2 \<le> n"
    using eq lt that by linarith
  show "n - t = 0" if "n < 2"
    using eq lt that by linarith
qed

lemma test_size_fraction: "\<not> (TEST_SIZE \<le> 0 \<or> 1 \<le> TEST_SIZE)"
  by (simp add: TEST_SIZE_def)

lemma train_test_split_small:
  assumes "length X = length y" and "length X < 2"
  shows "train_test_split perm X y TEST_SIZE = Inl ValueError"
  unfolding train_test_split_def Let_def n_test_eq
  using assms(1) test_count_bounds(5) [OF assms(2)] test_size_fraction
  by (simp only: if_True if_False not_not refl not_True_eq_False)

lemma train_test_split_indices:
  assumes "length X = length y" and "2 \<le> length X"
  shows "train_test_split perm X y TEST_SIZE =
         Inr (map ((!) X) (take (length X - (2 * length X + 4) div 5)
                             (drop ((2 * length X + 4) div 5) (perm (length X)))),
              map ((!) X) (take ((2 * length X + 4) div 5) (perm (length X))),
              map ((!) y) (take (length X - (2 * length X + 4) div 5)
                             (drop ((2 * length X + 4) div 5) (perm (length X)))),
              map ((!) y) (take ((2 * length X + 4) div 5) (perm (length X))))"
proof -
  have "length X - (2 * length X + 4) div 5 \<noteq> 0"
    using test_count_bounds(4) [OF assms(2)] by linarith
  then show ?thesis
    unfolding train_test_split_def Let_def n_test_eq
    using assms(1) test_size_fraction
    by (simp only: if_True if_False not_not refl not_True_eq_False)
qed

lemma identity_permutation_perm:
  "distinct (identity_permutation n)" "set (identity_permutation n) = {0..<n}"
  by (simp_all add: identity_permutation_def)

text \<open>
  Claim C7, as amended. For features and labels of the same length \<open>n\<close> and a drawn
  permutation of \<open>0..<n\<close>: when \<open>n\<close> is at least 2, the splitter returns the rows at two
  index lists, training and test, that are disjoint, that together are all of \<open>0..<n\<close>,
  with \<open>\<lceil>0.4 * n\<rceil>\<close> test indices (so \<open>0.4 * n \<le> n_test < 0.4 * n + 1\<close>), and both the
  features and the labels of each part are taken at the same index list, so the pairing
  is kept. When \<open>n\<close> is below 2 the splitter raises instead: the training set would be
  empty.
\<close>

theorem train_test_split_partition:
  assumes "length X = length y"
    and "distinct (perm (length X))" and "set (perm (length X)) = {0..<length X}"
  shows "(2 \<le> length X \<longrightarrow>
           (\<exists>ind_train ind_test.
              train_test_split perm X y TEST_SIZE =
                Inr (map ((!) X) ind_train, map ((!) X) ind_test,
                     map ((!) y) ind_train, map ((!) y) ind_test) \<and>
              distinct ind_train \<and> distinct ind_test \<and>
              set ind_train \<inter> set ind_test = {} \<and>
              set ind_train \<union> set ind_test = {0..<length X} \<and>
              2 * length X \<le> 5 * length ind_test \<and>
              5 * length ind_test < 2 * length X + 5 \<and>
              length ind_train + length ind_test = length X)) \<and>
         (length X < 2 \<longrightarrow> train_test_split perm X y TEST_SIZE = Inl ValueError)"
proof (intro conjI impI)
  assume "length X < 2"
  then show "train_test_split perm X y TEST_SIZE = Inl ValueError"
    using assms(1) by (rule train_test_split_small [rotated])
next
  assume n: "2 \<le> length X"
  define p where "p = perm (length X)"
  define t where "t = (2 * length X + 4) div 5"
  have dist: "distinct p" and setp: "set p = {0..<length X}"
    using assms(2,3) unfolding p_def by simp_all
  have len: "length p = length X"
    using distinct_card [OF dist] setp by simp
  have t: "t \<le> length X" "2 * length X \<le> 5 * t" "5 * t < 2 * length X + 5"
    unfolding t_def by (rule test_count_bounds)+
  let ?test = "take t p" and ?train = "take (length X - t) (drop t p)"
  have train: "?train = drop t p" using len by simp
  have dist2: "distinct (take t p @ drop t p)" using dist by simp
  have "train_test_split perm X y TEST_SIZE =
                Inr (map ((!) X) ?train, map ((!) X) ?test,
                     map ((!) y) ?train, map ((!) y) ?test)"
    unfolding t_def p_def by (rule train_test_split_indices [OF assms(1) n])
  moreover have "distinct ?train" "distinct ?test"
    using dist by (simp_all add: train)
  moreover have "set ?train \<inter> set ?test = {}"
    using dist2 unfolding train distinct_append by blast
  moreover have "set ?train \<union> set ?test = {0..<length X}"
  proof -
    have "set (drop t p) \<union> set (take t p) = set (take t p @ drop t p)"
      unfolding set_append by blast
    then show ?thesis unfolding train using setp by simp
  qed
  moreover have "length ?test = t" "length ?train + length ?test = length X"
    using len t(1) by simp_all
  ultimately show "\<exists>ind_train ind_test.
              train_test_split perm X y TEST_SIZE =
                Inr (map ((!) X) ind_train, map ((!) X) ind_test,
                     map ((!) y) ind_train, map ((!) y) ind_test) \<and>
              distinct ind_train \<and> distinct ind_test \<and>
              set ind_train \<inter> set ind_test = {} \<and>
              set ind_train \<union> set ind_test = {0..<length X} \<and>
              2 * length X \<le> 5 * length ind_test \<and>
              5 * length ind_test < 2 * length X + 5 \<and>
              length ind_train + length ind_test = length X"
    using t(2,3) by (intro exI [of _ ?train] exI [of _ ?test]) simp
qed

lemma split_five:
  "train_test_split identity_permutation [10, 11, 12, 13, 14 :: int]
     [''a'', ''b'', ''c'', ''d'', ''e''] TEST_SIZE =
   Inr ([12, 13, 14], [10, 11], [''c'', ''d'', ''e''], [''a'', ''b''])"
  by (simp add: train_test_split_def TEST_SIZE_def identity_permutation_def Let_def
      upt_rec [of _ "Suc _"] numeral_eq_Suc)

text \<open>Five rows under the identity permutation: two go to the test set.\<close>

theorem train_test_split_partition_witness:
  "length [10, 11, 12, 13, 14 :: int] = length [''a'', ''b'', ''c'', ''d'', ''e''] \<and>
   distinct (identity_permutation (length [10, 11, 12, 13, 14 :: int])) \<and>
   set (identity_permutation (length [10, 11, 12, 13, 14 :: int])) =
     {0..<length [10, 11, 12, 13, 14 :: int]} \<and>
   2 \<le> length [10, 11, 12, 13, 14 :: int] \<and>
   (\<exists>ind_train ind_test.
      train_test_split identity_permutation [10, 11, 12, 13, 14 :: int]
          [''a'', ''b'', ''c'', ''d'', ''e''] TEST_SIZE =
        Inr (map ((!) [10, 11, 12, 13, 14]) ind_train, map ((!) [10, 11, 12, 13, 14]) ind_test,
             map ((!) [''a'', ''b'', ''c'', ''d'', ''e'']) ind_train,
             map ((!) [''a'', ''b'', ''c'', ''d'', ''e'']) ind_test) \<and>
      distinct ind_train \<and> distinct ind_test \<and>
      set ind_train \<inter> set ind_test = {} \<and>
      set ind_train \<union> set ind_test = {0..<length [10, 11, 12, 13, 14 :: int]} \<and>
      2 * length [10, 11, 12, 13, 14 :: int] \<le> 5 * length ind_test \<and>
      5 * length ind_test < 2 * length [10, 11, 12, 13, 14 :: int] + 5 \<and>
      length ind_train + length ind_test = length [10, 11, 12, 13, 14 :: int]) \<and>
   train_test_split identity_permutation [10, 11, 12, 13, 14 :: int]
     [''a'', ''b'', ''c'', ''d'', ''e''] TEST_SIZE =
   Inr ([12, 13, 14], [10, 11], [''c'', ''d'', ''e''], [''a'', ''b''])"
proof -
  have l: "length [10, 11, 12, 13, 14 :: int] = length [''a'', ''b'', ''c'', ''d'', ''e'']"
    by simp
  have c: "2 \<le> length [10, 11, 12, 13, 14 :: int]"
    by simp
  note th = train_test_split_partition [of "[10, 11, 12, 13, 14 :: int]"
      "[''a'', ''b'', ''c'', ''d'', ''e'']" identity_permutation,
      OF l identity_permutation_perm, THEN conjunct1, rule_format, OF c]
  show ?thesis
  proof (intro conjI)
    show "length [10, 11, 12, 13, 14 :: int] = length [''a'', ''b'', ''c'', ''d'', ''e'']"
      by (rule l)
    show "distinct (identity_permutation (length [10, 11, 12, 13, 14 :: int]))"
      by (rule identity_permutation_perm)
    show "set (identity_permutation (length [10, 11, 12, 13, 14 :: int])) =
        {0..<length [10, 11, 12, 13, 14 :: int]}"
      by (rule identity_permutation_perm)
    show "2 \<le> length [10, 11, 12, 13, 14 :: int]"
      by (rule c)
    show "train_test_split identity_permutation [10, 11, 12, 13, 14 :: int]
        [''a'', ''b'', ''c'', ''d'', ''e''] TEST_SIZE =
      Inr ([12, 13, 14], [10, 11], [''c'', ''d'', ''e''], [''a'', ''b''])"
      by (rule split_five)
  qed (rule th)
qed

text \<open>
  The statement for every input fails on a single row: \<open>\<lceil>0.4 * 1\<rceil> = 1\<close> leaves nothing
  to train on, and the splitter raises.
\<close>

theorem train_test_split_single_row:
  "train_test_split identity_permutation [[JInt 1]] [JInt 1] TEST_SIZE = Inl ValueError"
  by (rule train_test_split_small) simp_all

section \<open>Properties of the program\<close>

text \<open>
  Claim C8. When the argument vector does not hold exactly the script name and one data
  file, the run ends in \<^verbatim>\<open>sys.exit\<close> with the usage message: the message goes to standard
  error, nothing goes to standard output, the exit status is not zero, and the outcome
  does not depend on the file system, the random source or the classifier, none of which
  is consulted.
\<close>

theorem usage_error:
  assumes "length argv \<noteq> 2"
  shows "main w argv = SysExit ''Usage: python shopping.py data'' \<and>
         stderr (main w argv) = [''Usage: python shopping.py data''] \<and>
         stdout (main w argv) = [] \<and>
         exit_status (main w argv) \<noteq> 0 \<and>
         main w' argv = main w argv"
  using assms by (simp add: main_def)

theorem usage_error_witness:
  "length [''shopping.py''] \<noteq> 2 \<and>
   main (example_world full_df) [''shopping.py''] = SysExit ''Usage: python shopping.py data'' \<and>
   stderr (main (example_world full_df) [''shopping.py'']) = [''Usage: python shopping.py data''] \<and>
   stdout (main (example_world full_df) [''shopping.py'']) = [] \<and>
   exit_status (main (example_world full_df) [''shopping.py'']) \<noteq> 0"
  using usage_error [of "[''shopping.py'']" "example_world full_df" "example_world full_df"]
  by simp

subsection \<open>Digits and decimal strings\<close>

lemma is_digit_digit: "d < 10 \<Longrightarrow> is_digit (digit d)"
  unfolding is_digit_def digit_def by (rule nth_mem) simp

lemma str_nat_digits: "list_all is_digit (str_nat n) \<and> str_nat n \<noteq> []"
proof (induction n rule: str_nat.induct)
  case (1 n)
  show ?case
  proof (cases "n < 10")
    case True
    then show ?thesis by (simp add: str_nat.simps [of n] is_digit_digit)
  next
    case False
    then show ?thesis
      using 1 by (simp add: str_nat.simps [of n] is_digit_digit)
  qed
qed

lemma round_half_even_nonneg: "0 \<le> x \<Longrightarrow> 0 \<le> round_half_even x"
  by (auto simp: round_half_even_def Let_def)

lemma pow2_pos: "0 < pow2 e"
  by (simp add: pow2_def)

lemma fl_nonneg: "0 \<le> q \<Longrightarrow> 0 \<le> fl q"
  by (auto simp: fl_def Let_def intro!: mult_nonneg_nonneg round_half_even_nonneg
      less_imp_le [OF pow2_pos])

lemma two_decimals_format:
  assumes "0 \<le> x"
  shows "two_decimals (format_2f (Val x))"
proof -
  define r where "r = round_half_even (\<bar>x\<bar> * 100)"
  have r: "0 \<le> r" unfolding r_def by (rule round_half_even_nonneg) simp
  have d1: "nat (r mod 100 div 10) < 10" and d2: "nat (r mod 10) < 10"
    using r by (auto simp: nat_less_iff)
  have "format_2f (Val x) =
        str_nat (nat (r div 100)) @ ''.'' @ [digit (nat (r mod 100 div 10)), digit (nat (r mod 10))]"
    using assms by (simp add: r_def Let_def)
  then show ?thesis
    using str_nat_digits [of "nat (r div 100)"] is_digit_digit [OF d1] is_digit_digit [OF d2]
    by (simp add: two_decimals_def)
qed

subsection \<open>Rates are NaN or non-negative\<close>

lemma true_divide_rate:
  assumes "0 \<le> a" and "0 \<le> c"
  shows "rate_value (true_divide a (a + c))"
proof (cases "a + c = 0")
  case True
  then have "a = 0" using assms by linarith
  then show ?thesis using True by (simp add: true_divide_def rate_value_def)
next
  case False
  have "0 \<le> (of_int a :: rat) / of_int (a + c)"
    using assms by simp
  then show ?thesis
    using False by (simp add: true_divide_def rate_value_def fl_nonneg)
qed

lemma confusion_matrix_item_nonneg:
  assumes "confusion_matrix_labels classes ls ps = Inr cm" and "item cm i j = Inr v"
  shows "0 \<le> v"
  using assms
  by (auto simp: confusion_matrix_labels_def item_def split: if_splits sum.splits)

lemma evaluate_labels_Inr:
  assumes "evaluate_labels classes ls ps = Inr (s, t)"
  shows "length ls = length ps \<and> rate_value s \<and> rate_value t"
proof -
  from assms obtain cm TN FN FP TP where
    cm: "confusion_matrix_labels classes ls ps = Inr cm" and
    items: "item cm 0 0 = Inr TN" "item cm 1 0 = Inr FN" "item cm 0 1 = Inr FP" "item cm 1 1 = Inr TP" and
    s: "s = true_divide TP (TP + FN)" and t: "t = true_divide TN (TN + FP)"
    by (auto simp: evaluate_labels_def Let_def split: sum.splits)
  have "0 \<le> TN" "0 \<le> FN" "0 \<le> FP" "0 \<le> TP"
    using items by (auto intro: confusion_matrix_item_nonneg [OF cm])
  then have "rate_value s" "rate_value t"
    unfolding s t by (auto intro: true_divide_rate)
  moreover have "length ls = length ps"
    using cm by (auto simp: confusion_matrix_labels_def split: if_splits)
  ultimately show ?thesis by simp
qed

lemma rate_format:
  assumes "rate_value s"
  shows "two_decimals (format_2f (times100 s)) \<or> s = NaN \<and> format_2f (times100 s) = ''nan''"
proof -
  from assms consider "s = NaN" | x where "0 \<le> x" "s = Val x"
    unfolding rate_value_def by auto
  then show ?thesis
  proof cases
    case 1
    then show ?thesis by simp
  next
    case 2
    have "0 \<le> fl (100 * x)"
      using 2(1) by (intro fl_nonneg) simp
    then have "two_decimals (format_2f (Val (fl (100 * x))))"
      by (rule two_decimals_format)
    then show ?thesis
      using 2(2) by (simp del: format_2f.simps)
  qed
qed

subsection \<open>Counting agreements\<close>

lemma count_equal_card:
  assumes "length ps = length ys"
  shows "count_equal ys ps = card {i. i < length ys \<and> ps ! i = ys ! i}"
proof -
  have "count_equal ys ps = card {i. i < length (zip ys ps) \<and> (\<lambda>(a, b). a = b) (zip ys ps ! i)}"
    unfolding count_equal_def by (rule length_filter_conv_card)
  also have "{i. i < length (zip ys ps) \<and> (\<lambda>(a, b). a = b) (zip ys ps ! i)} =
             {i. i < length ys \<and> ps ! i = ys ! i}"
    using assms by auto
  finally show ?thesis .
qed

lemma count_differ_card:
  assumes "length ps = length ys"
  shows "count_differ ys ps = card {i. i < length ys \<and> ps ! i \<noteq> ys ! i}"
proof -
  have "count_differ ys ps = card {i. i < length (zip ys ps) \<and> (\<lambda>(a, b). a \<noteq> b) (zip ys ps ! i)}"
    unfolding count_differ_def by (rule length_filter_conv_card)
  also have "{i. i < length (zip ys ps) \<and> (\<lambda>(a, b). a \<noteq> b) (zip ys ps ! i)} =
             {i. i < length ys \<and> ps ! i \<noteq> ys ! i}"
    using assms by auto
  finally show ?thesis .
qed

subsection \<open>The run\<close>

lemma main_Finished:
  assumes "main w argv = Finished out"
  shows "\<exists>evidence labels X_train X_test y_train y_test model predictions
            sensitivity specificity.
           length argv = 2 \<and>
           load_data w (argv ! 1) = Inr (evidence, labels) \<and>
           train_test_split (permutation w) evidence labels TEST_SIZE =
             Inr (X_train, X_test, y_train, y_test) \<and>
           train_model w X_train y_train = Inr model \<and>
           model X_test = Inr predictions \<and>
           evaluate_labels (label_classes w) y_test predictions =
             Inr (sensitivity, specificity) \<and>
           out = report y_test predictions sensitivity specificity"
  using assms
  by (auto simp: main_def split: if_splits sum.splits prod.splits)

lemma format_zero: "format_2f (Val 0) = ''0.00''"
  by (simp add: round_half_even_def str_nat.simps digit_def)

lemma format_hundred: "format_2f (Val 100) = ''100.00''"
  by (simp add: round_half_even_def str_nat.simps digit_def)

lemma fl_100: "fl 100 = 100"
  by code_simp

lemma fl_0: "fl 0 = 0"
  by (simp add: fl_def)

lemma load_two:
  "load_data (example_world two_session_df) ''shopping.csv'' =
     Inr ([features_1, features_2], [JInt 1, JInt 0])"
  by (simp add: load_data_def example_world_def two_session_df_def session_1_def session_2_def
      features_1_def features_2_def transform_df_def replace_def iloc_last_def
      iloc_all_but_last_def dataframe_to_list_of_lists_def series_to_list_def
      header_def feature_names_def replace_in_column_def replace_value_def mapping_def)

lemma split_two:
  "train_test_split identity_permutation [a, b] [x, y] TEST_SIZE = Inr ([b], [a], [y], [x])"
  using train_test_split_indices [of "[a, b]" "[x, y]" identity_permutation]
  by (simp add: identity_permutation_def upt_conv_Cons)

lemma evaluate_two: "evaluate_labels sorted_classes [JInt 1] [JInt 0] = Inr (Val 0, NaN)"
  by code_simp

lemma load_three:
  "load_data (example_world three_session_df) ''shopping.csv'' =
     Inr ([features_1, features_2, features_3], [JInt 1, JInt 0, JInt 1])"
  by (simp add: load_data_def example_world_def three_session_df_def session_1_def session_2_def
      session_3_def features_1_def features_2_def features_3_def transform_df_def replace_def
      iloc_last_def iloc_all_but_last_def dataframe_to_list_of_lists_def series_to_list_def
      header_def feature_names_def replace_in_column_def replace_value_def mapping_def)

lemma split_three:
  "train_test_split identity_permutation [a, b, c] [x, y, z] TEST_SIZE =
     Inr ([c], [a, b], [z], [x, y])"
  using train_test_split_indices [of "[a, b, c]" "[x, y, z]" identity_permutation]
  by (simp add: identity_permutation_def upt_conv_Cons)

lemma evaluate_three:
  "evaluate_labels sorted_classes [JInt 1, JInt 0] [JInt 1, JInt 1] = Inr (Val 1, Val 0)"
  by code_simp

lemma permutation_example_world: "permutation (example_world df) = identity_permutation"
  by (simp add: example_world_def)

lemma label_classes_example_world: "label_classes (example_world df) = sorted_classes"
  by (simp add: example_world_def)

lemma train_model_example_world:
  "train_model (example_world df) X (l # ls) = Inr (\<lambda>X_test. Inr (map (\<lambda>x. l) X_test))"
  by (simp add: train_model_def example_world_def first_label_classifier_def)

lemma main_two_sessions:
  "main (example_world two_session_df) [''shopping.py'', ''shopping.csv''] =
   Finished [''Correct: 0'', ''Incorrect: 1'', ''True Positive Rate: 0.00%'',
             ''True Negative Rate: nan%'']"
  by (simp add: main_def load_two permutation_example_world label_classes_example_world split_two
      train_model_example_world evaluate_two report_def count_equal_def count_differ_def fl_0
      format_zero str_nat.simps digit_def del: format_2f.simps(1))

lemma main_three_sessions:
  "main (example_world three_session_df) [''shopping.py'', ''shopping.csv''] =
   Finished [''Correct: 1'', ''Incorrect: 1'', ''True Positive Rate: 100.00%'',
             ''True Negative Rate: 0.00%'']"
  by (simp add: main_def load_three permutation_example_world label_classes_example_world
      split_three train_model_example_world evaluate_three report_def count_equal_def
      count_differ_def fl_0 fl_100 format_zero format_hundred str_nat.simps digit_def
      del: format_2f.simps(1))

text \<open>
  Labels need not be integers for a run to finish. With the labels \<^verbatim>\<open>yes\<close> and \<^verbatim>\<open>no\<close>
  the classes are \<^verbatim>\<open>no\<close>, then \<^verbatim>\<open>yes\<close>, and the four lines are printed all the same.
\<close>

lemma load_yes_no:
  "load_data (example_world yes_no_df) ''shopping.csv'' =
     Inr ([[JInt 1], [JInt 2]], [JStr ''yes'', JStr ''no''])"
  by (simp add: load_data_def example_world_def yes_no_df_def transform_df_def replace_def
      iloc_last_def iloc_all_but_last_def dataframe_to_list_of_lists_def series_to_list_def
      replace_in_column_def replace_value_def mapping_def)

lemma evaluate_yes_no:
  "evaluate_labels sorted_classes [JStr ''yes''] [JStr ''no''] = Inr (Val 0, NaN)"
  by code_simp

lemma main_yes_no:
  "main (example_world yes_no_df) [''shopping.py'', ''shopping.csv''] =
   Finished [''Correct: 0'', ''Incorrect: 1'', ''True Positive Rate: 0.00%'',
             ''True Negative Rate: nan%'']"
  by (simp add: main_def load_yes_no permutation_example_world label_classes_example_world
      split_two train_model_example_world evaluate_yes_no report_def count_equal_def
      count_differ_def fl_0 format_zero str_nat.simps digit_def del: format_2f.simps(1))

text \<open>
  Claim C9, as amended. A run that finishes has loaded the file, split it, trained,
  predicted and evaluated, and has printed exactly four lines, in this order:
  \<^verbatim>\<open>Correct: \<close> with the number of test rows whose prediction equals the true label,
  \<^verbatim>\<open>Incorrect: \<close> with the number of test rows where they differ,
  \<^verbatim>\<open>True Positive Rate: \<close> and \<^verbatim>\<open>True Negative Rate: \<close> with the two rates times 100
  and a percent sign. Each rate is printed with exactly two decimal digits, unless it is
  NaN, which is printed as \<^verbatim>\<open>nan\<close>.
\<close>

theorem report_lines:
  assumes "main w argv = Finished out"
  shows "\<exists>evidence labels X_train X_test y_train y_test model predictions
            sensitivity specificity.
           load_data w (argv ! 1) = Inr (evidence, labels) \<and>
           train_test_split (permutation w) evidence labels TEST_SIZE =
             Inr (X_train, X_test, y_train, y_test) \<and>
           train_model w X_train y_train = Inr model \<and>
           model X_test = Inr predictions \<and>
           length predictions = length y_test \<and>
           evaluate_labels (label_classes w) y_test predictions =
             Inr (sensitivity, specificity) \<and>
           out =
             [''Correct: '' @ str_nat (card {i. i < length y_test \<and> predictions ! i = y_test ! i}),
              ''Incorrect: '' @ str_nat (card {i. i < length y_test \<and> predictions ! i \<noteq> y_test ! i}),
              ''True Positive Rate: '' @ format_2f (times100 sensitivity) @ ''%'',
              ''True Negative Rate: '' @ format_2f (times100 specificity) @ ''%''] \<and>
           (two_decimals (format_2f (times100 sensitivity)) \<or>
              sensitivity = NaN \<and> format_2f (times100 sensitivity) = ''nan'') \<and>
           (two_decimals (format_2f (times100 specificity)) \<or>
              specificity = NaN \<and> format_2f (times100 specificity) = ''nan'')"
proof -
  from main_Finished [OF assms]
  obtain evidence labels X_train X_test y_train y_test model predictions
    sensitivity specificity
    where run: "load_data w (argv ! 1) = Inr (evidence, labels)"
      "train_test_split (permutation w) evidence labels TEST_SIZE =
         Inr (X_train, X_test, y_train, y_test)"
      "train_model w X_train y_train = Inr model"
      "model X_test = Inr predictions"
      and ev: "evaluate_labels (label_classes w) y_test predictions =
         Inr (sensitivity, specificity)"
      and out: "out = report y_test predictions sensitivity specificity"
    by blast
  from evaluate_labels_Inr [OF ev]
  have len: "length predictions = length y_test"
    and rates: "rate_value sensitivity" "rate_value specificity"
    by simp_all
  have "out =
             [''Correct: '' @ str_nat (card {i. i < length y_test \<and> predictions ! i = y_test ! i}),
              ''Incorrect: '' @ str_nat (card {i. i < length y_test \<and> predictions ! i \<noteq> y_test ! i}),
              ''True Positive Rate: '' @ format_2f (times100 sensitivity) @ ''%'',
              ''True Negative Rate: '' @ format_2f (times100 specificity) @ ''%'']"
    unfolding out report_def count_equal_card [OF len] count_differ_card [OF len] ..
  then show ?thesis
    using run ev len rate_format [OF rates(1)] rate_format [OF rates(2)] by blast
qed

text \<open>Three sessions: one test row predicted right, one wrong.\<close>

theorem report_lines_witness:
  "main (example_world three_session_df) [''shopping.py'', ''shopping.csv''] =
     Finished [''Correct: 1'', ''Incorrect: 1'', ''True Positive Rate: 100.00%'',
               ''True Negative Rate: 0.00%''] \<and>
   (\<exists>y_test predictions sensitivity specificity.
      evaluate_labels (label_classes (example_world three_session_df)) y_test predictions =
        Inr (sensitivity, specificity) \<and>
      [''Correct: 1'', ''Incorrect: 1'', ''True Positive Rate: 100.00%'',
       ''True Negative Rate: 0.00%''] =
        [''Correct: '' @ str_nat (card {i. i < length y_test \<and> predictions ! i = y_test ! i}),
         ''Incorrect: '' @ str_nat (card {i. i < length y_test \<and> predictions ! i \<noteq> y_test ! i}),
         ''True Positive Rate: '' @ format_2f (times100 sensitivity) @ ''%'',
         ''True Negative Rate: '' @ format_2f (times100 specificity) @ ''%''])"
  using report_lines [OF main_three_sessions] main_three_sessions by blast

text \<open>
  Two sessions: the single test row has revenue, the classifier trained on the other row
  predicts none. The run finishes with status 0, and the true negative rate, \<open>0 / 0\<close>, is
  printed as \<^verbatim>\<open>nan%\<close>, which has no decimal digits.
\<close>

theorem report_nan_rate:
  "main (example_world two_session_df) [''shopping.py'', ''shopping.csv''] =
     Finished [''Correct: 0'', ''Incorrect: 1'', ''True Positive Rate: 0.00%'',
               ''True Negative Rate: nan%''] \<and>
   \<not> two_decimals ''nan''"
  using main_two_sessions by (simp add: two_decimals_def is_digit_def)

end
